theory Spec2Isabelle
  imports Complex_Main "HOL-Library.AList" "HOL-Library.Log_Nat"
begin

section \<open>Python values, dictionaries and exceptions\<close>

text \<open>
  The movie backend moves plain Python values between the request body, the validation
  models and the documents of the \<open>movie\<close> collection. The values that occur are
  \<open>None\<close>, integers, floats, strings and lists. A float is modelled by the real number it
  denotes; the non-finite floats are outside the model. A \<open>dict\<close> is an association
  list, read with \<open>map_of\<close>, as Python dictionaries keep their insertion order.
\<close>

datatype pyval = PNone | PInt int | PFloat real | PStr string | PList "pyval list"

type_synonym dict = "(string \<times> pyval) list"

datatype err_type =
    missing
  | string_type | string_too_short | string_too_long
  | float_type | float_parsing | greater_than_equal | less_than_equal
  | list_type

type_synonym errors = "(string \<times> err_type) list"

datatype exn =
    InvalidId
  | TypeError
  | ValueError
  | OverflowError
  | AttributeError
  | ValidationError errors
  | DuplicateKeyError

text \<open>
  Two conversions from a string to a float belong to the Python runtime and to the
  validation library, not to this repository: the builtin \<open>float(s)\<close> and the lax-mode
  parsing of a numeric string given for a float field. Both are parameters of the model;
  \<open>None\<close> stands for a string that is not accepted.
\<close>

record runtime =
  float_of_str :: "string \<Rightarrow> real option"
  lax_float_of_str :: "string \<Rightarrow> real option"

definition dict_get :: "dict \<Rightarrow> string \<Rightarrow> pyval \<Rightarrow> pyval" where
  "dict_get d k dflt = (case map_of d k of None \<Rightarrow> dflt | Some v \<Rightarrow> v)"

text \<open>
  The conversion of an integer to a float, which is the runtime's and is used both by
  the builtin \<open>float(i)\<close> and by the validation of a float field: the integer is rounded
  to the nearest value with 53 significant bits, ties to the even one, and the conversion
  fails when the rounded value is beyond the range of a double (2 to the power 1024 or
  more in magnitude).
\<close>

definition round_to_53_bits :: "nat \<Rightarrow> nat" where
  "round_to_53_bits n =
     (let b = floorlog 2 n in
      if b \<le> 53 then n
      else (let e = b - 53; q = n div 2 ^ e; rm = n mod 2 ^ e
            in (if 2 ^ e < 2 * rm \<or> (2 * rm = 2 ^ e \<and> odd q) then q + 1 else q) * 2 ^ e))"

definition int_as_double :: "int \<Rightarrow> real option" where
  "int_as_double i =
     (let v = round_to_53_bits (nat \<bar>i\<bar>)
      in if 2 ^ 1024 \<le> v then None else Some (of_int (sgn i) * of_nat v))"

fun py_float :: "runtime \<Rightarrow> pyval \<Rightarrow> exn + real" where
  "py_float rt (PFloat r) = Inr r"
| "py_float rt (PInt i) = (case int_as_double i of None \<Rightarrow> Inl OverflowError | Some r \<Rightarrow> Inr r)"
| "py_float rt (PStr s) = (case float_of_str rt s of None \<Rightarrow> Inl ValueError | Some r \<Rightarrow> Inr r)"
| "py_float rt PNone = Inl TypeError"
| "py_float rt (PList xs) = Inl TypeError"

section \<open>Native identifiers\<close>

text \<open>
  A native identifier is kept as its canonical string form, the lower-case hexadecimal
  digits that \<open>str\<close> returns for it.
\<close>

datatype ObjectId = Oid string

definition is_hex :: "char \<Rightarrow> bool" where
  "is_hex c = (c \<in> set ''0123456789abcdefABCDEF'')"

definition lower_hex :: "char \<Rightarrow> char" where
  "lower_hex c = (case map_of (zip ''ABCDEF'' ''abcdef'') c of None \<Rightarrow> c | Some d \<Rightarrow> d)"

text \<open>
  Modelled from the spec: the constructor \<open>ObjectId(s)\<close> of \<open>bson\<close> is not part of the
  sources. The spec describes the native identifier as a fixed-length hexadecimal token,
  a well-formed identifier being a 24-character hexadecimal string, and every other
  string (wrong length, a character that is no hexadecimal digit, the empty string) as
  rejected.
\<close>

definition ObjectId_of_str :: "string \<Rightarrow> exn + ObjectId" where
  "ObjectId_of_str s =
     (if length s = 24 \<and> list_all is_hex s then Inr (Oid (map lower_hex s)) else Inl InvalidId)"

fun str_of_ObjectId :: "ObjectId \<Rightarrow> string" where
  "str_of_ObjectId (Oid h) = h"

definition ObjectId_wf :: "ObjectId \<Rightarrow> bool" where
  "ObjectId_wf oid = (length (str_of_ObjectId oid) = 24
     \<and> list_all (\<lambda>c. c \<in> set ''0123456789abcdef'') (str_of_ObjectId oid))"

section \<open>Declarative validation models\<close>

text \<open>
  A model class is the list of its fields in declaration order. A field carries its
  annotation (\<open>str\<close>, \<open>float\<close> or \<open>List[str]\<close>), whether the annotation is wrapped in
  \<open>Optional\<close>, its default (\<open>None\<close> here for the required marker \<open>...\<close>) and the
  constraints given to \<open>Field\<close>.
\<close>

datatype annotation = T_str | T_float | T_list_str

datatype field_info = Field
  (f_name: string)
  (f_type: annotation)
  (f_optional: bool)
  (f_default: "pyval option")
  (f_min_length: "nat option")
  (f_max_length: "nat option")
  (f_ge: "real option")
  (f_le: "real option")

definition validate_str :: "field_info \<Rightarrow> string \<Rightarrow> err_type + pyval" where
  "validate_str f s =
     (if (case f_min_length f of None \<Rightarrow> False | Some n \<Rightarrow> length s < n) then Inl string_too_short
      else if (case f_max_length f of None \<Rightarrow> False | Some n \<Rightarrow> n < length s) then Inl string_too_long
      else Inr (PStr s))"

definition validate_float :: "field_info \<Rightarrow> real \<Rightarrow> err_type + pyval" where
  "validate_float f r =
     (if (case f_ge f of None \<Rightarrow> False | Some b \<Rightarrow> r < b) then Inl greater_than_equal
      else if (case f_le f of None \<Rightarrow> False | Some b \<Rightarrow> b < r) then Inl less_than_equal
      else Inr (PFloat r))"

fun lax_float :: "runtime \<Rightarrow> pyval \<Rightarrow> err_type + real" where
  "lax_float rt (PFloat r) = Inr r"
| "lax_float rt (PInt i) = (case int_as_double i of None \<Rightarrow> Inl float_type | Some r \<Rightarrow> Inr r)"
| "lax_float rt (PStr s) =
     (case lax_float_of_str rt s of None \<Rightarrow> Inl float_parsing | Some r \<Rightarrow> Inr r)"
| "lax_float rt PNone = Inl float_type"
| "lax_float rt (PList xs) = Inl float_type"

fun is_str :: "pyval \<Rightarrow> bool" where
  "is_str (PStr s) = True"
| "is_str v = False"

definition validate_value :: "runtime \<Rightarrow> field_info \<Rightarrow> pyval \<Rightarrow> err_type + pyval" where
  "validate_value rt f v =
     (if v = PNone \<and> f_optional f then Inr PNone
      else (case f_type f of
              T_str \<Rightarrow> (case v of PStr s \<Rightarrow> validate_str f s | _ \<Rightarrow> Inl string_type)
            | T_float \<Rightarrow> (case lax_float rt v of Inl e \<Rightarrow> Inl e | Inr r \<Rightarrow> validate_float f r)
            | T_list_str \<Rightarrow>
                (case v of
                   PList xs \<Rightarrow> if list_all is_str xs then Inr (PList xs) else Inl string_type
                 | _ \<Rightarrow> Inl list_type)))"

text \<open>
  One field of a model against the input: a field missing from the input takes its
  default (which is not validated) or is reported \<open>missing\<close>; a field present in the
  input is validated. The flag tells whether the field was set by the input, which is
  what \<open>model_fields_set\<close> records.
\<close>

definition validate_field :: "runtime \<Rightarrow> field_info \<Rightarrow> dict \<Rightarrow> err_type + pyval \<times> bool" where
  "validate_field rt f data =
     (case map_of data (f_name f) of
        None \<Rightarrow> (case f_default f of None \<Rightarrow> Inl missing | Some d \<Rightarrow> Inr (d, False))
      | Some v \<Rightarrow> (case validate_value rt f v of Inl e \<Rightarrow> Inl e | Inr v' \<Rightarrow> Inr (v', True)))"

text \<open>
  Validation of a whole model walks the declared fields and collects all field errors,
  the validated values and the names of the fields that were set. Keys of the input that
  name no field are ignored.
\<close>

fun validate_fields :: "runtime \<Rightarrow> field_info list \<Rightarrow> dict \<Rightarrow> errors \<times> dict \<times> string list" where
  "validate_fields rt [] data = ([], [], [])"
| "validate_fields rt (f # fs) data =
     (case validate_fields rt fs data of (errs, vals, fset) \<Rightarrow>
        (case validate_field rt f data of
           Inl e \<Rightarrow> ((f_name f, e) # errs, vals, fset)
         | Inr (v, is_set) \<Rightarrow>
             (errs, (f_name f, v) # vals, if is_set then f_name f # fset else fset)))"

record model =
  model_values :: dict
  model_fields_set :: "string list"

definition validate_model :: "runtime \<Rightarrow> field_info list \<Rightarrow> dict \<Rightarrow> errors + model" where
  "validate_model rt cls data =
     (case validate_fields rt cls data of (errs, vals, fset) \<Rightarrow>
        if errs = [] then Inr \<lparr>model_values = vals, model_fields_set = fset\<rparr> else Inl errs)"

definition model_dump :: "model \<Rightarrow> dict" where
  "model_dump m = model_values m"

definition model_dump_exclude_unset :: "model \<Rightarrow> dict" where
  "model_dump_exclude_unset m = filter (\<lambda>(k, v). k \<in> set (model_fields_set m)) (model_values m)"

subsection \<open>The models of \<open>main.py\<close> and \<open>schemas.py\<close>\<close>

text \<open>The arguments of \<open>Field\<close> are, in order: name, annotation, whether it is
  \<open>Optional\<close>, default, \<open>min_length\<close>, \<open>max_length\<close>, \<open>ge\<close>, \<open>le\<close>.\<close>

definition MovieIn :: "field_info list" where
  "MovieIn =
    [Field ''title'' T_str False None (Some 1) (Some 200) None None,
     Field ''description'' T_str True (Some (PStr [])) None (Some 2000) None None,
     Field ''rating'' T_float False None None None (Some 0) (Some 10),
     Field ''poster_url'' T_str True (Some PNone) None None None None,
     Field ''genres'' T_list_str True (Some PNone) None None None None]"

definition MovieUpdate :: "field_info list" where
  "MovieUpdate =
    [Field ''title'' T_str True (Some PNone) (Some 1) (Some 200) None None,
     Field ''description'' T_str True (Some PNone) None (Some 2000) None None,
     Field ''rating'' T_float True (Some PNone) None None (Some 0) (Some 10),
     Field ''poster_url'' T_str True (Some PNone) None None None None,
     Field ''genres'' T_list_str True (Some PNone) None None None None]"

text \<open>\<open>MovieOut\<close> inherits the fields of \<open>MovieIn\<close> and adds the required string \<open>id\<close>.\<close>

definition MovieOut :: "field_info list" where
  "MovieOut = MovieIn @ [Field ''id'' T_str False None None None None None]"

text \<open>The collection schema \<open>Movie\<close> of \<open>schemas.py\<close>, imported as \<open>MovieSchema\<close>.\<close>

definition MovieSchema :: "field_info list" where
  "MovieSchema =
    [Field ''title'' T_str False None (Some 1) (Some 200) None None,
     Field ''description'' T_str True (Some (PStr [])) None (Some 2000) None None,
     Field ''rating'' T_float False None None None (Some 0) (Some 10),
     Field ''poster_url'' T_str True (Some PNone) None None None None,
     Field ''genres'' T_list_str True (Some PNone) None None None None]"

definition movie_fields :: "string list" where
  "movie_fields = [''title'', ''description'', ''rating'', ''poster_url'', ''genres'']"

section \<open>The document store\<close>

text \<open>
  The \<open>movie\<close> collection holds documents, each a native identifier (the \<open>_id\<close> the
  storage engine assigns) with the dictionary of its other fields. The database is taken
  to be connected. Every call made to the storage engine is appended to \<open>calls\<close>, so that
  a handler which leaves the database value unchanged has made no storage call at all.
\<close>

type_synonym document = "ObjectId \<times> dict"

datatype db_call =
    InsertOne ObjectId dict
  | FindOne ObjectId
  | UpdateOne ObjectId dict
  | DeleteOne ObjectId

record database =
  movie :: "document list"
  calls :: "db_call list"

definition called :: "db_call \<Rightarrow> database \<Rightarrow> database" where
  "called c db = db\<lparr>calls := calls db @ [c]\<rparr>"

definition find_one :: "database \<Rightarrow> ObjectId \<Rightarrow> document option \<times> database" where
  "find_one db oid =
     (map_option (\<lambda>d. (oid, d)) (map_of (movie db) oid), called (FindOne oid) db)"

text \<open>\<open>update_one\<close> with \<open>{"$set": upd}\<close>: the first matching document gets every key
  of \<open>upd\<close> assigned; without a match nothing is written (no upsert).\<close>

definition update_one :: "database \<Rightarrow> ObjectId \<Rightarrow> dict \<Rightarrow> database" where
  "update_one db oid upd =
     called (UpdateOne oid upd)
       (case map_of (movie db) oid of
          None \<Rightarrow> db
        | Some d \<Rightarrow> db\<lparr>movie := AList.update oid (AList.merge d upd) (movie db)\<rparr>)"

text \<open>\<open>delete_one\<close> returns the \<open>deleted_count\<close> with the new database.\<close>

definition delete_one :: "database \<Rightarrow> ObjectId \<Rightarrow> nat \<times> database" where
  "delete_one db oid =
     (if map_of (movie db) oid = None then 0 else 1,
      called (DeleteOne oid) (db\<lparr>movie := AList.delete oid (movie db)\<rparr>))"

definition insert_one :: "database \<Rightarrow> ObjectId \<Rightarrow> dict \<Rightarrow> (exn + ObjectId) \<times> database" where
  "insert_one db oid d =
     (if map_of (movie db) oid = None
      then (Inr oid, called (InsertOne oid d) (db\<lparr>movie := movie db @ [(oid, d)]\<rparr>))
      else (Inl DuplicateKeyError, called (InsertOne oid d) db))"

text \<open>
  Modelled from the spec: \<open>create_document\<close> lives in \<open>database.py\<close>, which is not part of
  the sources. By the spec the storage engine assigns the identifier on creation, the
  document layout is exactly the record's fields, and no operation populates the
  timestamps: the data is inserted as it is under the identifier \<open>new_id\<close> that the
  engine generates, and the identifier's string form is returned. The collection is
  always \<open>movie\<close>, the only one the application uses.
\<close>

definition create_document :: "database \<Rightarrow> dict \<Rightarrow> ObjectId \<Rightarrow> (exn + string) \<times> database" where
  "create_document db data new_id =
     (case insert_one db new_id data of
        (Inl e, db') \<Rightarrow> (Inl e, db')
      | (Inr oid, db') \<Rightarrow> (Inr (str_of_ObjectId oid), db'))"

section \<open>Output mapping\<close>

fun serialize_movie :: "runtime \<Rightarrow> document \<Rightarrow> exn + dict" where
  "serialize_movie rt (oid, doc) =
     (case py_float rt (dict_get doc ''rating'' (PInt 0)) of
        Inl e \<Rightarrow> Inl e
      | Inr r \<Rightarrow> Inr
          [(''id'', PStr (str_of_ObjectId oid)),
           (''title'', dict_get doc ''title'' (PStr [])),
           (''description'', dict_get doc ''description'' (PStr [])),
           (''rating'', PFloat r),
           (''poster_url'', dict_get doc ''poster_url'' PNone),
           (''genres'', dict_get doc ''genres'' PNone),
           (''created_at'', dict_get doc ''created_at'' PNone),
           (''updated_at'', dict_get doc ''updated_at'' PNone)])"

text \<open>\<open>MovieOut(**serialize_movie(doc))\<close>, the last step of the handlers that return a
  movie; a validation failure there is an exception of the handler.\<close>

definition movie_out :: "runtime \<Rightarrow> document \<Rightarrow> exn + model" where
  "movie_out rt doc =
     (case serialize_movie rt doc of
        Inl e \<Rightarrow> Inl e
      | Inr d \<Rightarrow>
          (case validate_model rt MovieOut d of
             Inl errs \<Rightarrow> Inl (ValidationError errs)
           | Inr m \<Rightarrow> Inr m))"

section \<open>Routes\<close>

text \<open>
  A handler ends with its return value, with an \<open>HTTPException\<close> it raises, or with an
  exception nobody catches, which the framework answers with status 500. A request body
  that fails the validation of the handler's annotated parameter is answered with status
  422 before the handler runs.
\<close>

datatype http_error =
    RequestValidationError errors
  | HTTPException nat string
  | InternalServerError exn

fun status_code :: "http_error \<Rightarrow> nat" where
  "status_code (RequestValidationError errs) = 422"
| "status_code (HTTPException code detail) = code"
| "status_code (InternalServerError e) = 500"

definition add_movie :: "runtime \<Rightarrow> ObjectId \<Rightarrow> database \<Rightarrow> model \<Rightarrow> (http_error + model) \<times> database" where
  "add_movie rt new_id db payload =
     (case validate_model rt MovieSchema (model_dump payload) of
        Inl errs \<Rightarrow> (Inl (InternalServerError (ValidationError errs)), db)
      | Inr checked \<Rightarrow>
          (case create_document db (model_dump payload) new_id of
             (Inl e, db1) \<Rightarrow> (Inl (InternalServerError e), db1)
           | (Inr inserted_id, db1) \<Rightarrow>
               (case ObjectId_of_str inserted_id of
                  Inl e \<Rightarrow> (Inl (InternalServerError e), db1)
                | Inr oid \<Rightarrow>
                    (case find_one db1 oid of
                       (None, db2) \<Rightarrow> (Inl (InternalServerError AttributeError), db2)
                     | (Some doc, db2) \<Rightarrow>
                         (case movie_out rt doc of
                            Inl e \<Rightarrow> (Inl (InternalServerError e), db2)
                          | Inr out \<Rightarrow> (Inr out, db2))))))"

definition delete_movie :: "database \<Rightarrow> string \<Rightarrow> (http_error + dict) \<times> database" where
  "delete_movie db movie_id =
     (case ObjectId_of_str movie_id of
        Inl e \<Rightarrow> (Inl (HTTPException 400 ''Invalid movie id''), db)
      | Inr oid \<Rightarrow>
          (case delete_one db oid of (deleted_count, db1) \<Rightarrow>
             if deleted_count = 0 then (Inl (HTTPException 404 ''Movie not found''), db1)
             else (Inr [(''status'', PStr ''ok'')], db1)))"

definition update_movie :: "runtime \<Rightarrow> database \<Rightarrow> string \<Rightarrow> model \<Rightarrow> (http_error + model) \<times> database" where
  "update_movie rt db movie_id payload =
     (case ObjectId_of_str movie_id of
        Inl e \<Rightarrow> (Inl (HTTPException 400 ''Invalid movie id''), db)
      | Inr oid \<Rightarrow>
          (let update_data = model_dump_exclude_unset payload in
           if update_data = [] then (Inl (HTTPException 400 ''No fields to update''), db)
           else
             (case find_one (update_one db oid update_data) oid of
                (None, db2) \<Rightarrow> (Inl (HTTPException 404 ''Movie not found''), db2)
              | (Some doc, db2) \<Rightarrow>
                  (case movie_out rt doc of
                     Inl e \<Rightarrow> (Inl (InternalServerError e), db2)
                   | Inr out \<Rightarrow> (Inr out, db2)))))"

text \<open>The routes as the framework serves them: the body is validated against the model
  of the handler's parameter, then the handler runs.\<close>

definition post_movies :: "runtime \<Rightarrow> ObjectId \<Rightarrow> database \<Rightarrow> dict \<Rightarrow> (http_error + model) \<times> database" where
  "post_movies rt new_id db body =
     (case validate_model rt MovieIn body of
        Inl errs \<Rightarrow> (Inl (RequestValidationError errs), db)
      | Inr payload \<Rightarrow> add_movie rt new_id db payload)"

definition put_movies :: "runtime \<Rightarrow> database \<Rightarrow> string \<Rightarrow> dict \<Rightarrow> (http_error + model) \<times> database" where
  "put_movies rt db movie_id body =
     (case validate_model rt MovieUpdate body of
        Inl errs \<Rightarrow> (Inl (RequestValidationError errs), db)
      | Inr payload \<Rightarrow> update_movie rt db movie_id payload)"

section \<open>Concrete values\<close>

text \<open>A runtime that accepts no numeric string, one stored movie and the database
  holding it: the inputs at which the theorems below are instantiated.\<close>

definition rt0 :: runtime where
  "rt0 = \<lparr>float_of_str = (\<lambda>s. None), lax_float_of_str = (\<lambda>s. None)\<rparr>"

definition inception :: dict where
  "inception =
     [(''title'', PStr ''Inception''), (''description'', PStr []), (''rating'', PFloat 9),
      (''poster_url'', PNone), (''genres'', PNone)]"

definition db0 :: database where
  "db0 = \<lparr>movie = [(Oid ''0123456789abcdef01234567'', inception)], calls = []\<rparr>"

section \<open>Properties of model validation\<close>

lemma validate_fields_errs:
  "fst (validate_fields rt cls data) =
     concat (map (\<lambda>f. case validate_field rt f data of Inl e \<Rightarrow> [(f_name f, e)] | Inr x \<Rightarrow> []) cls)"
  by (induction cls) (auto split: prod.splits sum.splits)

lemma validate_fields_vals:
  "fst (snd (validate_fields rt cls data)) =
     concat (map (\<lambda>f. case validate_field rt f data of Inl e \<Rightarrow> [] | Inr x \<Rightarrow> [(f_name f, fst x)]) cls)"
  by (induction cls) (auto split: prod.splits sum.splits)

lemma validate_fields_fset:
  "snd (snd (validate_fields rt cls data)) =
     concat (map (\<lambda>f. case validate_field rt f data of Inl e \<Rightarrow> [] | Inr x \<Rightarrow> if snd x then [f_name f] else []) cls)"
  by (induction cls) (auto split: prod.splits sum.splits)

lemma validate_field_set_iff:
  "validate_field rt f data = Inr (v, b) \<Longrightarrow> b \<longleftrightarrow> map_of data (f_name f) \<noteq> None"
  by (auto simp: validate_field_def split: option.splits sum.splits)

lemma validate_model_unfold:
  "validate_model rt cls data =
     (if fst (validate_fields rt cls data) = []
      then Inr \<lparr>model_values = fst (snd (validate_fields rt cls data)),
                model_fields_set = snd (snd (validate_fields rt cls data))\<rparr>
      else Inl (fst (validate_fields rt cls data)))"
  by (simp add: validate_model_def split: prod.splits)

lemma validate_model_Inr_fields:
  assumes "validate_model rt cls data = Inr p"
  shows "\<forall>f\<in>set cls. \<exists>v. validate_field rt f data = Inr (v, map_of data (f_name f) \<noteq> None)"
proof
  fix f assume f: "f \<in> set cls"
  from assms have "fst (validate_fields rt cls data) = []"
    by (simp add: validate_model_unfold split: if_splits)
  with f have "(case validate_field rt f data of Inl e \<Rightarrow> [(f_name f, e)] | Inr x \<Rightarrow> []) = []"
    by (auto simp: validate_fields_errs)
  then obtain v b where vb: "validate_field rt f data = Inr (v, b)"
    by (cases "validate_field rt f data") auto
  with validate_field_set_iff[OF vb] show "\<exists>v. validate_field rt f data = Inr (v, map_of data (f_name f) \<noteq> None)"
    by auto
qed

lemma validate_model_values_keys:
  assumes "validate_model rt cls data = Inr p"
  shows "map fst (model_values p) = map f_name cls"
proof -
  have vals: "model_values p = fst (snd (validate_fields rt cls data))"
    using assms by (auto simp: validate_model_unfold split: if_splits)
  have "\<forall>f\<in>set cls0. \<exists>v. validate_field rt f data = Inr (v, map_of data (f_name f) \<noteq> None) \<Longrightarrow>
        map fst (concat (map (\<lambda>f. case validate_field rt f data of Inl e \<Rightarrow> [] | Inr x \<Rightarrow> [(f_name f, fst x)]) cls0))
          = map f_name cls0" for cls0
    by (induction cls0) auto
  with validate_model_Inr_fields[OF assms] vals show ?thesis
    by (simp add: validate_fields_vals)
qed

lemma validate_model_fields_set:
  assumes "validate_model rt cls data = Inr p"
  shows "model_fields_set p = filter (\<lambda>n. map_of data n \<noteq> None) (map f_name cls)"
proof -
  have fs: "model_fields_set p = snd (snd (validate_fields rt cls data))"
    using assms by (auto simp: validate_model_unfold split: if_splits)
  have "\<forall>f\<in>set cls0. \<exists>v. validate_field rt f data = Inr (v, map_of data (f_name f) \<noteq> None) \<Longrightarrow>
        concat (map (\<lambda>f. case validate_field rt f data of Inl e \<Rightarrow> [] | Inr x \<Rightarrow> if snd x then [f_name f] else []) cls0)
          = filter (\<lambda>n. map_of data n \<noteq> None) (map f_name cls0)" for cls0
    by (induction cls0) auto
  with validate_model_Inr_fields[OF assms] fs show ?thesis
    by (simp add: validate_fields_fset)
qed

lemma validate_model_value:
  assumes "validate_model rt cls data = Inr p" and "distinct (map f_name cls)"
    and "f \<in> set cls" and "validate_field rt f data = Inr (v, b)"
  shows "map_of (model_values p) (f_name f) = Some v"
proof -
  have vals: "model_values p = fst (snd (validate_fields rt cls data))"
    using assms(1) by (auto simp: validate_model_unfold split: if_splits)
  have "distinct (map f_name cls0) \<Longrightarrow> f \<in> set cls0 \<Longrightarrow>
        map_of (concat (map (\<lambda>f. case validate_field rt f data of Inl e \<Rightarrow> [] | Inr x \<Rightarrow> [(f_name f, fst x)]) cls0)) (f_name f)
          = Some v" for cls0
  proof (induction cls0)
    case Nil then show ?case by simp
  next
    case (Cons g gs)
    show ?case
    proof (cases "g = f")
      case True then show ?thesis using assms(4) by simp
    next
      case False
      with Cons.prems have "f \<in> set gs" "f_name g \<noteq> f_name f" by auto
      with Cons show ?thesis by (auto split: sum.splits)
    qed
  qed
  with assms(2,3) vals show ?thesis by (simp add: validate_fields_vals)
qed

lemma map_of_exclude_unset:
  "map_of (model_dump_exclude_unset p) k =
     (if k \<in> set (model_fields_set p) then map_of (model_values p) k else None)"
  by (simp add: model_dump_exclude_unset_def AList.restrict_eq[symmetric] AList.restr_conv' restrict_map_def)

lemma keys_exclude_unset:
  "fst ` set (model_dump_exclude_unset p) = fst ` set (model_values p) \<inter> set (model_fields_set p)"
  by (auto simp: model_dump_exclude_unset_def image_iff)

lemma update_movie_db:
  "snd (update_movie rt db movie_id payload) =
     (case ObjectId_of_str movie_id of
        Inl e \<Rightarrow> db
      | Inr oid \<Rightarrow>
          if model_dump_exclude_unset payload = [] then db
          else called (FindOne oid) (update_one db oid (model_dump_exclude_unset payload)))"
  by (simp add: update_movie_def find_one_def Let_def split: sum.splits option.splits)

lemma movie_called [simp]: "movie (called c db) = movie db"
  by (simp add: called_def)

lemma movie_update_one:
  "map_of (movie db) oid = Some d \<Longrightarrow>
   map_of (movie (update_one db oid upd)) = (map_of (movie db))(oid \<mapsto> AList.merge d upd)"
  by (simp add: update_one_def AList.update_conv')

lemma MovieUpdate_names: "map f_name MovieUpdate = movie_fields"
  by (simp add: MovieUpdate_def movie_fields_def)

lemma MovieUpdate_keys:
  assumes "validate_model rt MovieUpdate body = Inr payload"
  shows "fst ` set (model_dump_exclude_unset payload) = set movie_fields \<inter> fst ` set body"
proof -
  have "map_of body n \<noteq> None \<longleftrightarrow> n \<in> fst ` set body" for n
    by (simp add: map_of_eq_None_iff)
  then show ?thesis
    using validate_model_values_keys[OF assms] validate_model_fields_set[OF assms]
    by (auto simp: keys_exclude_unset MovieUpdate_names image_iff dest: arg_cong[where f=set])
qed

lemma stored_after_update:
  assumes "ObjectId_of_str movie_id = Inr oid" and "map_of (movie db) oid = Some stored"
  shows "map_of (movie (snd (update_movie rt db movie_id payload))) oid =
           Some (AList.merge stored (model_dump_exclude_unset payload))"
proof (cases "model_dump_exclude_unset payload = []")
  case True
  then show ?thesis using assms by (simp add: update_movie_db AList.merge_def)
next
  case False
  then show ?thesis using assms by (simp add: update_movie_db movie_update_one)
qed

section \<open>Integers as floats\<close>

lemma round_to_53_bits_small: "n < 2 ^ 53 \<Longrightarrow> round_to_53_bits n = n"
  by (simp add: round_to_53_bits_def floorlog_le_iff)

lemma round_to_53_bits_large:
  assumes "2 ^ 53 \<le> n"
  shows "2 ^ (floorlog 2 n - 1) \<le> round_to_53_bits n"
proof -
  let ?b = "floorlog 2 n"
  let ?e = "?b - 53"
  have n0: "0 < n" using assms by (simp add: Suc_le_eq[symmetric] order_trans[OF _ assms])
  have b: "53 < ?b"
    using floorlog_ge_SucI[of 2 53 n] assms by simp
  have low: "2 ^ (?b - 1) \<le> n"
    using floorlog_bounds[OF n0, of 2] by simp
  have eq: "?b - 1 = 52 + ?e"
    using b by linarith
  have split: "(2::nat) ^ (?b - 1) = 2 ^ 52 * 2 ^ ?e"
    unfolding eq by (rule power_add)
  have "2 ^ 52 \<le> n div 2 ^ ?e"
  proof -
    have "2 ^ 52 * 2 ^ ?e \<le> n" using low split by simp
    then show ?thesis by (simp add: less_eq_div_iff_mult_less_eq)
  qed
  then have "2 ^ 52 * 2 ^ ?e \<le> (n div 2 ^ ?e) * 2 ^ ?e"
    by simp
  also have "\<dots> \<le> round_to_53_bits n"
    using b by (simp add: round_to_53_bits_def Let_def)
  finally show ?thesis using split by simp
qed

lemma int_as_double_small: "\<bar>i\<bar> < 2 ^ 53 \<Longrightarrow> int_as_double i = Some (of_int i)"
proof -
  assume a: "\<bar>i\<bar> < 2 ^ 53"
  then have n: "nat \<bar>i\<bar> < 2 ^ 53" by (simp add: nat_less_iff)
  have "(2::nat) ^ 53 < 2 ^ 1024" by simp
  with n have "\<not> 2 ^ 1024 \<le> nat \<bar>i\<bar>" by linarith
  moreover have "of_int (sgn i) * real (nat \<bar>i\<bar>) = of_int i"
    by (cases "i < 0") (auto simp: sgn_if)
  ultimately show ?thesis
    using n by (simp add: int_as_double_def round_to_53_bits_small)
qed

lemma int_as_double_overflow: "2 ^ 1024 \<le> \<bar>i\<bar> \<Longrightarrow> int_as_double i = None"
proof -
  assume a: "2 ^ 1024 \<le> \<bar>i\<bar>"
  let ?n = "nat \<bar>i\<bar>"
  from a have n: "2 ^ 1024 \<le> ?n" by (simp add: le_nat_iff)
  have "(2::nat) ^ 53 \<le> 2 ^ 1024" by simp
  with n have n53: "2 ^ 53 \<le> ?n" by linarith
  have "1025 \<le> floorlog 2 ?n"
    using floorlog_ge_SucI[of 2 1024 ?n] n by simp
  then have "(2::nat) ^ 1024 \<le> 2 ^ (floorlog 2 ?n - 1)"
    by (intro power_increasing) auto
  also have "\<dots> \<le> round_to_53_bits ?n"
    by (rule round_to_53_bits_large[OF n53])
  finally show ?thesis
    by (simp add: int_as_double_def)
qed

lemma int_as_double_sign:
  assumes "int_as_double i = Some r"
  shows "(10 < i \<longrightarrow> 10 < r) \<and> (i < 0 \<longrightarrow> r < 0)"
proof -
  let ?n = "nat \<bar>i\<bar>"
  let ?v = "round_to_53_bits ?n"
  from assms have r: "r = of_int (sgn i) * of_nat ?v"
    by (auto simp: int_as_double_def Let_def split: if_splits)
  have v: "(?n < 2 ^ 53 \<and> ?v = ?n) \<or> (2 ^ 53 \<le> ?n \<and> 2 ^ 53 \<le> ?v)"
  proof (cases "?n < 2 ^ 53")
    case True
    then show ?thesis by (simp add: round_to_53_bits_small)
  next
    case False
    then have n53: "2 ^ 53 \<le> ?n" by simp
    have "53 < floorlog 2 ?n"
      using floorlog_ge_SucI[of 2 53 ?n] n53 by simp
    then have "(2::nat) ^ 53 \<le> 2 ^ (floorlog 2 ?n - 1)"
      by (intro power_increasing) auto
    also have "\<dots> \<le> ?v" by (rule round_to_53_bits_large[OF n53])
    finally show ?thesis using n53 by simp
  qed
  have big: "10 < i \<Longrightarrow> 10 < r"
  proof -
    assume i: "10 < i"
    then have "10 < ?n" by simp
    with v have "10 < ?v" by auto
    then have "(10::real) < of_nat ?v" by (metis of_nat_less_iff of_nat_numeral)
    with i r show "10 < r" by (simp add: sgn_if)
  qed
  have neg: "i < 0 \<Longrightarrow> r < 0"
  proof -
    assume i: "i < 0"
    then have "0 < ?n" by simp
    with v have "0 < ?v" by auto
    with i r show "r < 0" by (simp add: sgn_if)
  qed
  from big neg show ?thesis by blast
qed

section \<open>Partial update\<close>

text \<open>
  Claim C1. For an update payload whose keys are all movie fields and which passes the
  validation of \<open>MovieUpdate\<close>, the merge set \<open>update_data\<close> has exactly the keys of the
  payload; after \<open>update_movie\<close> on an existing record, every field the payload does not
  mention is stored with the value it had before, and every field it mentions with the
  value of the merge set.
\<close>

theorem C1_partial_update_merge:
  assumes "validate_model rt MovieUpdate body = Inr payload"
    and "fst ` set body \<subseteq> set movie_fields"
    and "ObjectId_of_str movie_id = Inr oid"
    and "map_of (movie db) oid = Some stored"
  shows "fst ` set (model_dump_exclude_unset payload) = fst ` set body \<and>
         (\<exists>stored'. map_of (movie (snd (update_movie rt db movie_id payload))) oid = Some stored' \<and>
            (\<forall>k. k \<notin> fst ` set body \<longrightarrow> map_of stored' k = map_of stored k) \<and>
            (\<forall>k. k \<in> fst ` set body \<longrightarrow>
                   map_of stored' k = map_of (model_dump_exclude_unset payload) k))"
proof -
  have keys: "fst ` set (model_dump_exclude_unset payload) = fst ` set body"
    using MovieUpdate_keys[OF assms(1)] assms(2) by auto
  let ?upd = "model_dump_exclude_unset payload"
  have st: "map_of (movie (snd (update_movie rt db movie_id payload))) oid = Some (AList.merge stored ?upd)"
    by (rule stored_after_update[OF assms(3,4)])
  have dom: "dom (map_of ?upd) = fst ` set body"
    using keys by (simp add: dom_map_of_conv_image_fst)
  have a: "k \<notin> fst ` set body \<Longrightarrow> map_of (AList.merge stored ?upd) k = map_of stored k" for k
    using dom by (simp add: AList.merge_conv' map_add_dom_app_simps)
  have b: "k \<in> fst ` set body \<Longrightarrow> map_of (AList.merge stored ?upd) k = map_of ?upd k" for k
    using dom by (simp add: AList.merge_conv' map_add_dom_app_simps)
  from keys st a b show ?thesis by blast
qed

theorem C1_partial_update_merge_witness:
  "validate_model rt0 MovieUpdate [(''rating'', PFloat 7.5)] =
      Inr \<lparr>model_values = [(''title'', PNone), (''description'', PNone), (''rating'', PFloat 7.5),
              (''poster_url'', PNone), (''genres'', PNone)], model_fields_set = [''rating'']\<rparr>
   \<and> ObjectId_of_str ''0123456789abcdef01234567'' = Inr (Oid ''0123456789abcdef01234567'')
   \<and> map_of (movie db0) (Oid ''0123456789abcdef01234567'') = Some inception
   \<and> fst ` set (model_dump_exclude_unset
        \<lparr>model_values = [(''title'', PNone), (''description'', PNone), (''rating'', PFloat 7.5),
              (''poster_url'', PNone), (''genres'', PNone)], model_fields_set = [''rating'']\<rparr>) = {''rating''}
   \<and> (\<exists>stored'. map_of (movie (snd (update_movie rt0 db0 ''0123456789abcdef01234567''
          \<lparr>model_values = [(''title'', PNone), (''description'', PNone), (''rating'', PFloat 7.5),
              (''poster_url'', PNone), (''genres'', PNone)], model_fields_set = [''rating'']\<rparr>)))
          (Oid ''0123456789abcdef01234567'') = Some stored'
        \<and> map_of stored' ''title'' = Some (PStr ''Inception'')
        \<and> map_of stored' ''description'' = Some (PStr [])
        \<and> map_of stored' ''poster_url'' = Some PNone
        \<and> map_of stored' ''genres'' = Some PNone
        \<and> map_of stored' ''rating'' = Some (PFloat 7.5))"
proof -
  let ?p = "\<lparr>model_values = [(''title'', PNone), (''description'', PNone), (''rating'', PFloat 7.5),
              (''poster_url'', PNone), (''genres'', PNone)], model_fields_set = [''rating'']\<rparr>"
  have h1: "validate_model rt0 MovieUpdate [(''rating'', PFloat 7.5)] = Inr ?p"
    by (simp add: validate_model_def MovieUpdate_def validate_field_def validate_value_def validate_float_def)
  have h2: "fst ` set [(''rating'', PFloat 7.5)] \<subseteq> set movie_fields"
    by (simp add: movie_fields_def)
  have h3: "ObjectId_of_str ''0123456789abcdef01234567'' = Inr (Oid ''0123456789abcdef01234567'')"
    by (simp add: ObjectId_of_str_def is_hex_def lower_hex_def)
  have h4: "map_of (movie db0) (Oid ''0123456789abcdef01234567'') = Some inception"
    by (simp add: db0_def)
  have h5: "map_of inception ''title'' = Some (PStr ''Inception'')"
    "map_of inception ''description'' = Some (PStr [])"
    "map_of inception ''poster_url'' = Some PNone"
    "map_of inception ''genres'' = Some PNone"
    by (simp_all add: inception_def)
  have h6: "map_of (model_dump_exclude_unset ?p) ''rating'' = Some (PFloat 7.5)"
    by (simp add: model_dump_exclude_unset_def)
  from C1_partial_update_merge[OF h1 h2 h3 h4] obtain stored' where
    s1: "map_of (movie (snd (update_movie rt0 db0 ''0123456789abcdef01234567'' ?p)))
          (Oid ''0123456789abcdef01234567'') = Some stored'"
    and keep: "\<And>k. k \<notin> fst ` set [(''rating'', PFloat 7.5)] \<Longrightarrow> map_of stored' k = map_of inception k"
    and new: "\<And>k. k \<in> fst ` set [(''rating'', PFloat 7.5)] \<Longrightarrow>
                 map_of stored' k = map_of (model_dump_exclude_unset ?p) k"
    and keys: "fst ` set (model_dump_exclude_unset ?p) = fst ` set [(''rating'', PFloat 7.5)]"
    by blast
  have k1: "map_of stored' ''title'' = Some (PStr ''Inception'')" using keep[of "''title''"] h5 by simp
  have k2: "map_of stored' ''description'' = Some (PStr [])" using keep[of "''description''"] h5 by simp
  have k3: "map_of stored' ''poster_url'' = Some PNone" using keep[of "''poster_url''"] h5 by simp
  have k4: "map_of stored' ''genres'' = Some PNone" using keep[of "''genres''"] h5 by simp
  have k5: "map_of stored' ''rating'' = Some (PFloat 7.5)" using new[of "''rating''"] h6 by simp
  have k6: "fst ` set (model_dump_exclude_unset ?p) = {''rating''}" using keys by simp
  from s1 k1 k2 k3 k4 k5 have "\<exists>stored'. map_of (movie (snd (update_movie rt0 db0 ''0123456789abcdef01234567'' ?p)))
          (Oid ''0123456789abcdef01234567'') = Some stored'
        \<and> map_of stored' ''title'' = Some (PStr ''Inception'')
        \<and> map_of stored' ''description'' = Some (PStr [])
        \<and> map_of stored' ''poster_url'' = Some PNone
        \<and> map_of stored' ''genres'' = Some PNone
        \<and> map_of stored' ''rating'' = Some (PFloat 7.5)" by blast
  with h1 h3 h4 k6 show ?thesis by blast
qed

section \<open>An update without fields\<close>

lemma MovieUpdate_no_fields:
  assumes "\<forall>k\<in>set movie_fields. map_of body k = None"
  shows "validate_model rt MovieUpdate body =
           Inr \<lparr>model_values = [(''title'', PNone), (''description'', PNone), (''rating'', PNone),
                  (''poster_url'', PNone), (''genres'', PNone)], model_fields_set = []\<rparr>"
  using assms by (simp add: validate_model_def MovieUpdate_def validate_field_def movie_fields_def)

text \<open>
  Claim C6. An update payload in which none of the movie fields is present passes the
  validation of \<open>MovieUpdate\<close> with an empty merge set; the handler then raises the
  client error 400 "No fields to update" and leaves the database as it was, without
  any storage call. Whatever the identifier, the route answers with a 400 error and
  an unchanged database, never with a success.
\<close>

theorem C6_no_fields_provided:
  assumes "\<forall>k\<in>set movie_fields. map_of body k = None"
  shows "(\<exists>payload. validate_model rt MovieUpdate body = Inr payload \<and>
            model_dump_exclude_unset payload = [] \<and>
            (\<forall>oid. ObjectId_of_str movie_id = Inr oid \<longrightarrow>
               update_movie rt db movie_id payload =
                 (Inl (HTTPException 400 ''No fields to update''), db))) \<and>
         (\<forall>oid. ObjectId_of_str movie_id = Inr oid \<longrightarrow>
            put_movies rt db movie_id body = (Inl (HTTPException 400 ''No fields to update''), db)) \<and>
         (\<exists>e. put_movies rt db movie_id body = (Inl e, db) \<and> status_code e = 400)"
proof -
  let ?p = "\<lparr>model_values = [(''title'', PNone), (''description'', PNone), (''rating'', PNone),
                  (''poster_url'', PNone), (''genres'', PNone)], model_fields_set = []\<rparr>"
  have v: "validate_model rt MovieUpdate body = Inr ?p"
    by (rule MovieUpdate_no_fields[OF assms])
  have e: "model_dump_exclude_unset ?p = []"
    by (simp add: model_dump_exclude_unset_def)
  have u: "ObjectId_of_str movie_id = Inr oid \<Longrightarrow>
           update_movie rt db movie_id ?p = (Inl (HTTPException 400 ''No fields to update''), db)" for oid
    using e by (simp add: update_movie_def)
  have p: "ObjectId_of_str movie_id = Inr oid \<Longrightarrow>
           put_movies rt db movie_id body = (Inl (HTTPException 400 ''No fields to update''), db)" for oid
    using u v by (simp add: put_movies_def)
  have q: "\<exists>e. put_movies rt db movie_id body = (Inl e, db) \<and> status_code e = 400"
  proof (cases "ObjectId_of_str movie_id")
    case (Inl x)
    then show ?thesis using v by (simp add: put_movies_def update_movie_def)
  next
    case (Inr oid)
    then show ?thesis using p by simp
  qed
  from v e u p q show ?thesis by blast
qed

theorem C6_no_fields_provided_witness:
  "map_of [(''year'', PInt 2010)] ''title'' = None
   \<and> ObjectId_of_str ''0123456789abcdef01234567'' = Inr (Oid ''0123456789abcdef01234567'')
   \<and> put_movies rt0 db0 ''0123456789abcdef01234567'' [(''year'', PInt 2010)] =
       (Inl (HTTPException 400 ''No fields to update''), db0)
   \<and> put_movies rt0 db0 ''0123456789abcdef01234567'' [] =
       (Inl (HTTPException 400 ''No fields to update''), db0)"
proof -
  have h: "\<forall>k\<in>set movie_fields. map_of [(''year'', PInt 2010)] k = None"
    by (simp add: movie_fields_def)
  have h': "\<forall>k\<in>set movie_fields. map_of ([] :: dict) k = None"
    by simp
  have h3: "ObjectId_of_str ''0123456789abcdef01234567'' = Inr (Oid ''0123456789abcdef01234567'')"
    by (simp add: ObjectId_of_str_def is_hex_def lower_hex_def)
  from C6_no_fields_provided[OF h, where movie_id="''0123456789abcdef01234567''" and rt=rt0 and db=db0]
       C6_no_fields_provided[OF h', where movie_id="''0123456789abcdef01234567''" and rt=rt0 and db=db0] h3
  show ?thesis by simp
qed

section \<open>Explicit null in an update\<close>

lemma MovieUpdate_distinct: "distinct (map f_name MovieUpdate)"
  by (simp add: MovieUpdate_def)

lemma MovieUpdate_optional: "f \<in> set MovieUpdate \<Longrightarrow> f_optional f"
  by (auto simp: MovieUpdate_def)

lemma MovieUpdate_field: "k \<in> set movie_fields \<Longrightarrow> \<exists>f\<in>set MovieUpdate. f_name f = k"
  by (auto simp: MovieUpdate_def movie_fields_def)

text \<open>
  Claim C9. In an update payload that passes validation, a movie field given explicitly
  as null is in the merge set with the value \<open>None\<close>, while a field absent from the
  payload is not in the merge set; after \<open>update_movie\<close> on an existing record, that
  field is stored as \<open>None\<close>.
\<close>

theorem C9_explicit_null_is_written:
  assumes "validate_model rt MovieUpdate body = Inr payload"
    and "k \<in> set movie_fields"
    and "map_of body k = Some PNone"
    and "ObjectId_of_str movie_id = Inr oid"
    and "map_of (movie db) oid = Some stored"
  shows "map_of (model_dump_exclude_unset payload) k = Some PNone \<and>
         (\<forall>k'. map_of body k' = None \<longrightarrow> map_of (model_dump_exclude_unset payload) k' = None) \<and>
         (\<exists>stored'. map_of (movie (snd (update_movie rt db movie_id payload))) oid = Some stored' \<and>
            map_of stored' k = Some PNone)"
proof -
  let ?upd = "model_dump_exclude_unset payload"
  from MovieUpdate_field[OF assms(2)] obtain f where f: "f \<in> set MovieUpdate" "f_name f = k"
    by blast
  have vf: "validate_field rt f body = Inr (PNone, True)"
    using assms(3) f MovieUpdate_optional[OF f(1)]
    by (simp add: validate_field_def validate_value_def)
  have val: "map_of (model_values payload) k = Some PNone"
    using validate_model_value[OF assms(1) MovieUpdate_distinct f(1) vf] f(2) by simp
  have fs: "model_fields_set payload = filter (\<lambda>n. map_of body n \<noteq> None) movie_fields"
    using validate_model_fields_set[OF assms(1)] by (simp add: MovieUpdate_names)
  have a: "map_of ?upd k = Some PNone"
    using val fs assms(2,3) by (simp add: map_of_exclude_unset)
  have b: "map_of body k' = None \<Longrightarrow> map_of ?upd k' = None" for k'
    using fs by (simp add: map_of_exclude_unset)
  have st: "map_of (movie (snd (update_movie rt db movie_id payload))) oid =
              Some (AList.merge stored ?upd)"
    by (rule stored_after_update[OF assms(4,5)])
  have c: "map_of (AList.merge stored ?upd) k = Some PNone"
    using a by (simp add: AList.merge_conv')
  from a b st c show ?thesis by auto
qed

theorem C9_explicit_null_is_written_witness:
  "validate_model rt0 MovieUpdate [(''description'', PNone)] =
      Inr \<lparr>model_values = [(''title'', PNone), (''description'', PNone), (''rating'', PNone),
              (''poster_url'', PNone), (''genres'', PNone)], model_fields_set = [''description'']\<rparr>
   \<and> map_of inception ''description'' = Some (PStr [])
   \<and> map_of (model_dump_exclude_unset
        \<lparr>model_values = [(''title'', PNone), (''description'', PNone), (''rating'', PNone),
              (''poster_url'', PNone), (''genres'', PNone)], model_fields_set = [''description'']\<rparr>)
        ''description'' = Some PNone
   \<and> (\<exists>stored'. map_of (movie (snd (update_movie rt0 db0 ''0123456789abcdef01234567''
          \<lparr>model_values = [(''title'', PNone), (''description'', PNone), (''rating'', PNone),
              (''poster_url'', PNone), (''genres'', PNone)], model_fields_set = [''description'']\<rparr>)))
          (Oid ''0123456789abcdef01234567'') = Some stored'
        \<and> map_of stored' ''description'' = Some PNone)"
proof -
  let ?p = "\<lparr>model_values = [(''title'', PNone), (''description'', PNone), (''rating'', PNone),
              (''poster_url'', PNone), (''genres'', PNone)], model_fields_set = [''description'']\<rparr>"
  have h1: "validate_model rt0 MovieUpdate [(''description'', PNone)] = Inr ?p"
    by (simp add: validate_model_def MovieUpdate_def validate_field_def validate_value_def)
  have h2: "''description'' \<in> set movie_fields"
    by (simp add: movie_fields_def)
  have h3: "map_of [(''description'', PNone)] ''description'' = Some PNone"
    by simp
  have h4: "ObjectId_of_str ''0123456789abcdef01234567'' = Inr (Oid ''0123456789abcdef01234567'')"
    by (simp add: ObjectId_of_str_def is_hex_def lower_hex_def)
  have h5: "map_of (movie db0) (Oid ''0123456789abcdef01234567'') = Some inception"
    by (simp add: db0_def)
  have h6: "map_of inception ''description'' = Some (PStr [])"
    by (simp add: inception_def)
  from C9_explicit_null_is_written[OF h1 h2 h3 h4 h5] h1 h6 show ?thesis
    by blast
qed

section \<open>Identifiers at the boundary\<close>

lemma lower_hex_canonical: "is_hex c \<Longrightarrow> lower_hex c \<in> set ''0123456789abcdef''"
  by (auto simp: is_hex_def lower_hex_def)

lemma ObjectId_of_str_wf:
  assumes "ObjectId_of_str s = Inr oid"
  shows "ObjectId_wf oid"
proof -
  from assms have s: "length s = 24" "\<forall>c\<in>set s. is_hex c" and oid: "oid = Oid (map lower_hex s)"
    by (auto simp: ObjectId_of_str_def list_all_iff split: if_splits)
  from s(2) have "\<forall>c\<in>set s. lower_hex c \<in> set ''0123456789abcdef''"
    using lower_hex_canonical by blast
  then have "list_all (\<lambda>c. c \<in> set ''0123456789abcdef'') (map lower_hex s)"
    unfolding list_all_iff by auto
  with s(1) oid show ?thesis
    by (simp add: ObjectId_wf_def)
qed

text \<open>
  Claim C5. A string whose length is not 24 or which holds a character that is no
  hexadecimal digit (the empty string among them) is rejected with \<open>InvalidId\<close>, and
  both \<open>delete_movie\<close> and \<open>update_movie\<close> turn that into the client error 400 "Invalid
  movie id" with the database untouched; a string of 24 hexadecimal digits parses to a
  well-formed identifier.
\<close>

theorem C5_parse_identifier:
  "((length s \<noteq> 24 \<or> (\<exists>c\<in>set s. \<not> is_hex c)) \<longrightarrow>
      ObjectId_of_str s = Inl InvalidId \<and>
      delete_movie db s = (Inl (HTTPException 400 ''Invalid movie id''), db) \<and>
      update_movie rt db s payload = (Inl (HTTPException 400 ''Invalid movie id''), db) \<and>
      status_code (HTTPException 400 ''Invalid movie id'') = 400) \<and>
   (length s = 24 \<and> (\<forall>c\<in>set s. is_hex c) \<longrightarrow>
      (\<exists>oid. ObjectId_of_str s = Inr oid \<and> ObjectId_wf oid)) \<and>
   ObjectId_of_str [] = Inl InvalidId"
proof -
  have bad: "ObjectId_of_str s = Inl InvalidId"
    if "length s \<noteq> 24 \<or> (\<exists>c\<in>set s. \<not> is_hex c)"
    using that by (auto simp: ObjectId_of_str_def list_all_iff)
  have good: "\<exists>oid. ObjectId_of_str s = Inr oid \<and> ObjectId_wf oid"
    if "length s = 24 \<and> (\<forall>c\<in>set s. is_hex c)"
  proof -
    from that have "ObjectId_of_str s = Inr (Oid (map lower_hex s))"
      by (simp add: ObjectId_of_str_def list_all_iff)
    then show ?thesis using ObjectId_of_str_wf by blast
  qed
  have del: "delete_movie db s = (Inl (HTTPException 400 ''Invalid movie id''), db)"
    if "ObjectId_of_str s = Inl InvalidId"
    using that by (simp add: delete_movie_def)
  have upd: "update_movie rt db s payload = (Inl (HTTPException 400 ''Invalid movie id''), db)"
    if "ObjectId_of_str s = Inl InvalidId"
    using that by (simp add: update_movie_def)
  have empty: "ObjectId_of_str [] = Inl InvalidId"
    by (simp add: ObjectId_of_str_def)
  from bad good del upd empty show ?thesis by simp
qed

theorem C5_parse_identifier_witness:
  "length ''not-a-valid-id'' = 14
   \<and> delete_movie db0 ''not-a-valid-id'' = (Inl (HTTPException 400 ''Invalid movie id''), db0)
   \<and> ObjectId_of_str ''00ff00ff00ff00ff00ff00fg'' = Inl InvalidId
   \<and> (\<exists>oid. ObjectId_of_str ''0123456789ABCDEF01234567'' = Inr oid \<and> ObjectId_wf oid)"
proof -
  have a: "length ''not-a-valid-id'' \<noteq> 24 \<or> (\<exists>c\<in>set ''not-a-valid-id''. \<not> is_hex c)"
    by simp
  have b: "length ''00ff00ff00ff00ff00ff00fg'' \<noteq> 24 \<or> (\<exists>c\<in>set ''00ff00ff00ff00ff00ff00fg''. \<not> is_hex c)"
    by (simp add: is_hex_def)
  have c: "length ''0123456789ABCDEF01234567'' = 24 \<and> (\<forall>c\<in>set ''0123456789ABCDEF01234567''. is_hex c)"
    by (simp add: is_hex_def)
  have l: "length ''not-a-valid-id'' = 14" by simp
  from C5_parse_identifier[where s="''not-a-valid-id''" and db=db0] a
  have 1: "delete_movie db0 ''not-a-valid-id'' = (Inl (HTTPException 400 ''Invalid movie id''), db0)"
    by blast
  from C5_parse_identifier[where s="''00ff00ff00ff00ff00ff00fg''"] b
  have 2: "ObjectId_of_str ''00ff00ff00ff00ff00ff00fg'' = Inl InvalidId"
    by blast
  from C5_parse_identifier[where s="''0123456789ABCDEF01234567''"] c
  have 3: "\<exists>oid. ObjectId_of_str ''0123456789ABCDEF01234567'' = Inr oid \<and> ObjectId_wf oid"
    by blast
  from l 1 2 3 show ?thesis by blast
qed

section \<open>Validation comes before storage\<close>

text \<open>
  Claim C8. Whenever a route answers with a validation error (status 422 for a body that
  fails field validation, status 400 for a malformed identifier or an update without
  fields), the database it returns is the one it was given: no document changed, and no
  storage call was made. Each of these errors is raised in the case the claim names.
\<close>

theorem C8_validation_before_storage:
  "(\<forall>e. fst (post_movies rt new_id db body) = Inl e \<and> status_code e \<in> {400, 422} \<longrightarrow>
        snd (post_movies rt new_id db body) = db) \<and>
   (\<forall>e. fst (put_movies rt db movie_id body) = Inl e \<and> status_code e \<in> {400, 422} \<longrightarrow>
        snd (put_movies rt db movie_id body) = db) \<and>
   (\<forall>e. fst (delete_movie db movie_id) = Inl e \<and> status_code e \<in> {400, 422} \<longrightarrow>
        snd (delete_movie db movie_id) = db) \<and>
   (\<forall>errs. validate_model rt MovieIn body = Inl errs \<longrightarrow>
        post_movies rt new_id db body = (Inl (RequestValidationError errs), db)) \<and>
   (\<forall>errs. validate_model rt MovieUpdate body = Inl errs \<longrightarrow>
        put_movies rt db movie_id body = (Inl (RequestValidationError errs), db)) \<and>
   (\<forall>x. ObjectId_of_str movie_id = Inl x \<longrightarrow>
        delete_movie db movie_id = (Inl (HTTPException 400 ''Invalid movie id''), db) \<and>
        update_movie rt db movie_id payload = (Inl (HTTPException 400 ''Invalid movie id''), db)) \<and>
   (\<forall>oid. ObjectId_of_str movie_id = Inr oid \<and> model_dump_exclude_unset payload = [] \<longrightarrow>
        update_movie rt db movie_id payload = (Inl (HTTPException 400 ''No fields to update''), db))"
proof -
  have post: "snd (post_movies rt new_id db body) = db"
    if "fst (post_movies rt new_id db body) = Inl e" "status_code e \<in> {400, 422}" for e
    using that
    by (auto simp: post_movies_def add_movie_def split: sum.splits prod.splits option.splits)
  have upd: "snd (update_movie rt db movie_id p) = db"
    if "fst (update_movie rt db movie_id p) = Inl e" "status_code e \<in> {400, 422}" for e p
    using that
    by (auto simp: update_movie_def Let_def split: sum.splits prod.splits option.splits if_splits)
  have put: "snd (put_movies rt db movie_id body) = db"
    if "fst (put_movies rt db movie_id body) = Inl e" "status_code e \<in> {400, 422}" for e
  proof (cases "validate_model rt MovieUpdate body")
    case (Inl errs)
    then show ?thesis by (simp add: put_movies_def)
  next
    case (Inr p)
    then show ?thesis using that upd[of p e] by (simp add: put_movies_def)
  qed
  have del: "snd (delete_movie db movie_id) = db"
    if "fst (delete_movie db movie_id) = Inl e" "status_code e \<in> {400, 422}" for e
    using that
    by (auto simp: delete_movie_def split: sum.splits prod.splits if_splits)
  have f1: "post_movies rt new_id db body = (Inl (RequestValidationError errs), db)"
    if "validate_model rt MovieIn body = Inl errs" for errs
    using that by (simp add: post_movies_def)
  have f2: "put_movies rt db movie_id body = (Inl (RequestValidationError errs), db)"
    if "validate_model rt MovieUpdate body = Inl errs" for errs
    using that by (simp add: put_movies_def)
  have f3: "delete_movie db movie_id = (Inl (HTTPException 400 ''Invalid movie id''), db) \<and>
        update_movie rt db movie_id payload = (Inl (HTTPException 400 ''Invalid movie id''), db)"
    if "ObjectId_of_str movie_id = Inl x" for x
    using that by (simp add: delete_movie_def update_movie_def)
  have f4: "update_movie rt db movie_id payload = (Inl (HTTPException 400 ''No fields to update''), db)"
    if "ObjectId_of_str movie_id = Inr oid \<and> model_dump_exclude_unset payload = []" for oid
    using that by (simp add: update_movie_def)
  from post put del f1 f2 f3 f4 show ?thesis by blast
qed

theorem C8_validation_before_storage_witness:
  "validate_model rt0 MovieIn [(''title'', PStr ''Inception''), (''rating'', PFloat 11)] =
      Inl [(''rating'', less_than_equal)]
   \<and> post_movies rt0 (Oid ''0123456789abcdef01234568'') db0
        [(''title'', PStr ''Inception''), (''rating'', PFloat 11)] =
      (Inl (RequestValidationError [(''rating'', less_than_equal)]), db0)
   \<and> validate_model rt0 MovieUpdate [(''title'', PStr [])] = Inl [(''title'', string_too_short)]
   \<and> put_movies rt0 db0 ''0123456789abcdef01234567'' [(''title'', PStr [])] =
      (Inl (RequestValidationError [(''title'', string_too_short)]), db0)
   \<and> ObjectId_of_str ''not-a-valid-id'' = Inl InvalidId
   \<and> delete_movie db0 ''not-a-valid-id'' = (Inl (HTTPException 400 ''Invalid movie id''), db0)"
proof -
  have a: "validate_model rt0 MovieIn [(''title'', PStr ''Inception''), (''rating'', PFloat 11)] =
      Inl [(''rating'', less_than_equal)]"
    by (simp add: validate_model_def MovieIn_def validate_field_def validate_value_def
          validate_str_def validate_float_def)
  have b: "validate_model rt0 MovieUpdate [(''title'', PStr [])] = Inl [(''title'', string_too_short)]"
    by (simp add: validate_model_def MovieUpdate_def validate_field_def validate_value_def
          validate_str_def)
  have c: "ObjectId_of_str ''not-a-valid-id'' = Inl InvalidId"
    by (simp add: ObjectId_of_str_def)
  note t = C8_validation_before_storage[where rt=rt0 and db=db0]
  from t[where body="[(''title'', PStr ''Inception''), (''rating'', PFloat 11)]"
          and new_id="Oid ''0123456789abcdef01234568''"] a
  have 1: "post_movies rt0 (Oid ''0123456789abcdef01234568'') db0
        [(''title'', PStr ''Inception''), (''rating'', PFloat 11)] =
      (Inl (RequestValidationError [(''rating'', less_than_equal)]), db0)"
    by blast
  from t[where body="[(''title'', PStr [])]" and movie_id="''0123456789abcdef01234567''"] b
  have 2: "put_movies rt0 db0 ''0123456789abcdef01234567'' [(''title'', PStr [])] =
      (Inl (RequestValidationError [(''title'', string_too_short)]), db0)"
    by blast
  from t[where movie_id="''not-a-valid-id''"] c
  have 3: "delete_movie db0 ''not-a-valid-id'' = (Inl (HTTPException 400 ''Invalid movie id''), db0)"
    by blast
  from a b c 1 2 3 show ?thesis by blast
qed

section \<open>Output mapping of stored documents\<close>

text \<open>
  Claim C10 says that the output mapping is total on arbitrary storage documents. It is
  not: \<open>float\<close> raises on a rating that is present but is no number, such as the \<open>None\<close>
  an update with an explicit null leaves behind.
\<close>

theorem C10_to_output_not_total:
  "serialize_movie rt0 (Oid ''0123456789abcdef01234567'',
      [(''title'', PStr ''Inception''), (''rating'', PNone)]) = Inl TypeError"
  by (simp add: dict_get_def)

text \<open>
  Claim C10, amended. On a storage document whose rating is absent, or is a value that
  \<open>float\<close> converts, the output mapping returns a dictionary in which \<open>id\<close> is the string
  form of the native identifier, \<open>rating\<close> is the converted rating and is 0.0 when the
  document has none, \<open>title\<close> and \<open>description\<close> are the stored values and the empty
  string when the document has none, and \<open>poster_url\<close> and \<open>genres\<close> are the stored
  values and \<open>None\<close> when the document has none.
\<close>

theorem C10_to_output_defaults:
  "(map_of doc ''rating'' = None \<longrightarrow> py_float rt (dict_get doc ''rating'' (PInt 0)) = Inr 0) \<and>
   (py_float rt (dict_get doc ''rating'' (PInt 0)) = Inr r \<longrightarrow>
     (\<exists>out. serialize_movie rt (oid, doc) = Inr out \<and>
        map_of out ''id'' = Some (PStr (str_of_ObjectId oid)) \<and>
        map_of out ''rating'' = Some (PFloat r) \<and>
        map_of out ''title'' = Some (case map_of doc ''title'' of None \<Rightarrow> PStr [] | Some v \<Rightarrow> v) \<and>
        map_of out ''description'' =
          Some (case map_of doc ''description'' of None \<Rightarrow> PStr [] | Some v \<Rightarrow> v) \<and>
        map_of out ''poster_url'' =
          Some (case map_of doc ''poster_url'' of None \<Rightarrow> PNone | Some v \<Rightarrow> v) \<and>
        map_of out ''genres'' = Some (case map_of doc ''genres'' of None \<Rightarrow> PNone | Some v \<Rightarrow> v)))"
proof (intro conjI impI)
  assume "map_of doc ''rating'' = None"
  then have "dict_get doc ''rating'' (PInt 0) = PInt 0"
    by (simp add: dict_get_def)
  then show "py_float rt (dict_get doc ''rating'' (PInt 0)) = Inr 0"
    by (simp add: int_as_double_small)
next
  assume "py_float rt (dict_get doc ''rating'' (PInt 0)) = Inr r"
  then have "serialize_movie rt (oid, doc) = Inr
          [(''id'', PStr (str_of_ObjectId oid)),
           (''title'', dict_get doc ''title'' (PStr [])),
           (''description'', dict_get doc ''description'' (PStr [])),
           (''rating'', PFloat r),
           (''poster_url'', dict_get doc ''poster_url'' PNone),
           (''genres'', dict_get doc ''genres'' PNone),
           (''created_at'', dict_get doc ''created_at'' PNone),
           (''updated_at'', dict_get doc ''updated_at'' PNone)]"
    by simp
  then show "\<exists>out. serialize_movie rt (oid, doc) = Inr out \<and>
        map_of out ''id'' = Some (PStr (str_of_ObjectId oid)) \<and>
        map_of out ''rating'' = Some (PFloat r) \<and>
        map_of out ''title'' = Some (case map_of doc ''title'' of None \<Rightarrow> PStr [] | Some v \<Rightarrow> v) \<and>
        map_of out ''description'' =
          Some (case map_of doc ''description'' of None \<Rightarrow> PStr [] | Some v \<Rightarrow> v) \<and>
        map_of out ''poster_url'' =
          Some (case map_of doc ''poster_url'' of None \<Rightarrow> PNone | Some v \<Rightarrow> v) \<and>
        map_of out ''genres'' = Some (case map_of doc ''genres'' of None \<Rightarrow> PNone | Some v \<Rightarrow> v)"
    by (simp add: dict_get_def)
qed

theorem C10_to_output_defaults_witness:
  "map_of [(''poster_url'', PStr ''p.png'')] ''rating'' = None
   \<and> (\<exists>out. serialize_movie rt0 (Oid ''0123456789abcdef01234567'', [(''poster_url'', PStr ''p.png'')])
          = Inr out \<and>
        map_of out ''id'' = Some (PStr ''0123456789abcdef01234567'') \<and>
        map_of out ''rating'' = Some (PFloat 0) \<and>
        map_of out ''title'' = Some (PStr []) \<and>
        map_of out ''description'' = Some (PStr []) \<and>
        map_of out ''poster_url'' = Some (PStr ''p.png'') \<and>
        map_of out ''genres'' = Some PNone)"
proof -
  have a: "map_of [(''poster_url'', PStr ''p.png'')] ''rating'' = None"
    by simp
  note t = C10_to_output_defaults[where doc="[(''poster_url'', PStr ''p.png'')]" and rt=rt0
      and r=0 and oid="Oid ''0123456789abcdef01234567''"]
  from t a have f: "py_float rt0 (dict_get [(''poster_url'', PStr ''p.png'')] ''rating'' (PInt 0)) = Inr 0"
    by blast
  with t obtain out where
    "serialize_movie rt0 (Oid ''0123456789abcdef01234567'', [(''poster_url'', PStr ''p.png'')]) = Inr out"
    "map_of out ''id'' = Some (PStr (str_of_ObjectId (Oid ''0123456789abcdef01234567'')))"
    "map_of out ''rating'' = Some (PFloat 0)"
    "map_of out ''title'' =
       Some (case map_of [(''poster_url'', PStr ''p.png'')] ''title'' of None \<Rightarrow> PStr [] | Some v \<Rightarrow> v)"
    "map_of out ''description'' =
       Some (case map_of [(''poster_url'', PStr ''p.png'')] ''description'' of None \<Rightarrow> PStr [] | Some v \<Rightarrow> v)"
    "map_of out ''poster_url'' =
       Some (case map_of [(''poster_url'', PStr ''p.png'')] ''poster_url'' of None \<Rightarrow> PNone | Some v \<Rightarrow> v)"
    "map_of out ''genres'' =
       Some (case map_of [(''poster_url'', PStr ''p.png'')] ''genres'' of None \<Rightarrow> PNone | Some v \<Rightarrow> v)"
    by blast
  then have "\<exists>out. serialize_movie rt0 (Oid ''0123456789abcdef01234567'', [(''poster_url'', PStr ''p.png'')])
          = Inr out \<and>
        map_of out ''id'' = Some (PStr ''0123456789abcdef01234567'') \<and>
        map_of out ''rating'' = Some (PFloat 0) \<and>
        map_of out ''title'' = Some (PStr []) \<and>
        map_of out ''description'' = Some (PStr []) \<and>
        map_of out ''poster_url'' = Some (PStr ''p.png'') \<and>
        map_of out ''genres'' = Some PNone"
    by simp
  with a show ?thesis by blast
qed

section \<open>The persisted record after an update with an explicit null\<close>

text \<open>
  Claim C2 asks that no request leaves a stored record without a title or with a rating
  outside of 0 to 10. Evaluated at an update with an explicit null: the stored movie
  conforms to the collection schema \<open>Movie\<close> before the request; the body
  \<open>{"title": null}\<close> passes the validation of \<open>MovieUpdate\<close>, \<open>update_one\<close> stores
  the title \<open>None\<close>, and only afterwards does the handler fail, on building its own
  \<open>MovieOut\<close> from the record it has just written; the stored record no longer conforms
  to the collection schema. The body \<open>{"rating": null}\<close> does the same to the rating.
\<close>

theorem C2_null_title_is_persisted:
  "validate_model rt0 MovieSchema inception =
     Inr \<lparr>model_values = inception, model_fields_set = movie_fields\<rparr>
   \<and> put_movies rt0 db0 ''0123456789abcdef01234567'' [(''title'', PNone)] =
     (Inl (InternalServerError (ValidationError [(''title'', string_type)])),
      \<lparr>movie = [(Oid ''0123456789abcdef01234567'',
          [(''title'', PNone), (''description'', PStr []), (''rating'', PFloat 9),
           (''poster_url'', PNone), (''genres'', PNone)])],
       calls = [UpdateOne (Oid ''0123456789abcdef01234567'') [(''title'', PNone)],
                FindOne (Oid ''0123456789abcdef01234567'')]\<rparr>)
   \<and> validate_model rt0 MovieSchema
        [(''title'', PNone), (''description'', PStr []), (''rating'', PFloat 9),
         (''poster_url'', PNone), (''genres'', PNone)] = Inl [(''title'', string_type)]
   \<and> put_movies rt0 db0 ''0123456789abcdef01234567'' [(''rating'', PNone)] =
     (Inl (InternalServerError TypeError),
      \<lparr>movie = [(Oid ''0123456789abcdef01234567'',
          [(''title'', PStr ''Inception''), (''description'', PStr []), (''rating'', PNone),
           (''poster_url'', PNone), (''genres'', PNone)])],
       calls = [UpdateOne (Oid ''0123456789abcdef01234567'') [(''rating'', PNone)],
                FindOne (Oid ''0123456789abcdef01234567'')]\<rparr>)"
proof -
  have oid: "ObjectId_of_str ''0123456789abcdef01234567'' = Inr (Oid ''0123456789abcdef01234567'')"
    by (simp add: ObjectId_of_str_def is_hex_def lower_hex_def)
  have a: "validate_model rt0 MovieSchema inception =
     Inr \<lparr>model_values = inception, model_fields_set = movie_fields\<rparr>"
    by (simp add: validate_model_def MovieSchema_def inception_def movie_fields_def
          validate_field_def validate_value_def validate_str_def validate_float_def)
  have v1: "validate_model rt0 MovieUpdate [(''title'', PNone)] =
      Inr \<lparr>model_values = [(''title'', PNone), (''description'', PNone), (''rating'', PNone),
              (''poster_url'', PNone), (''genres'', PNone)], model_fields_set = [''title'']\<rparr>"
    by (simp add: validate_model_def MovieUpdate_def validate_field_def validate_value_def)
  have v2: "validate_model rt0 MovieUpdate [(''rating'', PNone)] =
      Inr \<lparr>model_values = [(''title'', PNone), (''description'', PNone), (''rating'', PNone),
              (''poster_url'', PNone), (''genres'', PNone)], model_fields_set = [''rating'']\<rparr>"
    by (simp add: validate_model_def MovieUpdate_def validate_field_def validate_value_def)
  have o1: "movie_out rt0 (Oid ''0123456789abcdef01234567'',
          [(''title'', PNone), (''description'', PStr []), (''rating'', PFloat 9),
           (''poster_url'', PNone), (''genres'', PNone)]) = Inl (ValidationError [(''title'', string_type)])"
    by (simp add: movie_out_def dict_get_def validate_model_def MovieOut_def MovieIn_def
          validate_field_def validate_value_def validate_str_def validate_float_def)
  have o2: "movie_out rt0 (Oid ''0123456789abcdef01234567'',
          [(''title'', PStr ''Inception''), (''description'', PStr []), (''rating'', PNone),
           (''poster_url'', PNone), (''genres'', PNone)]) = Inl TypeError"
    by (simp add: movie_out_def dict_get_def)
  have b: "put_movies rt0 db0 ''0123456789abcdef01234567'' [(''title'', PNone)] =
     (Inl (InternalServerError (ValidationError [(''title'', string_type)])),
      \<lparr>movie = [(Oid ''0123456789abcdef01234567'',
          [(''title'', PNone), (''description'', PStr []), (''rating'', PFloat 9),
           (''poster_url'', PNone), (''genres'', PNone)])],
       calls = [UpdateOne (Oid ''0123456789abcdef01234567'') [(''title'', PNone)],
                FindOne (Oid ''0123456789abcdef01234567'')]\<rparr>)"
    by (simp add: put_movies_def v1 update_movie_def oid model_dump_exclude_unset_def
          update_one_def find_one_def called_def db0_def inception_def AList.merge_def o1)
  have c: "validate_model rt0 MovieSchema
        [(''title'', PNone), (''description'', PStr []), (''rating'', PFloat 9),
         (''poster_url'', PNone), (''genres'', PNone)] = Inl [(''title'', string_type)]"
    by (simp add: validate_model_def MovieSchema_def
          validate_field_def validate_value_def validate_str_def validate_float_def)
  have d: "put_movies rt0 db0 ''0123456789abcdef01234567'' [(''rating'', PNone)] =
     (Inl (InternalServerError TypeError),
      \<lparr>movie = [(Oid ''0123456789abcdef01234567'',
          [(''title'', PStr ''Inception''), (''description'', PStr []), (''rating'', PNone),
           (''poster_url'', PNone), (''genres'', PNone)])],
       calls = [UpdateOne (Oid ''0123456789abcdef01234567'') [(''rating'', PNone)],
                FindOne (Oid ''0123456789abcdef01234567'')]\<rparr>)"
    by (simp add: put_movies_def v2 update_movie_def oid model_dump_exclude_unset_def
          update_one_def find_one_def called_def db0_def inception_def AList.merge_def o2)
  from a b c d show ?thesis by blast
qed

section \<open>What a validated creation payload looks like\<close>

lemma validate_model_failure:
  assumes "f \<in> set cls" and "validate_field rt f data = Inl e"
  shows "\<exists>errs. validate_model rt cls data = Inl errs \<and> (f_name f, e) \<in> set errs"
proof -
  have "(f_name f, e) \<in> set (fst (validate_fields rt cls data))"
    using assms by (force simp: validate_fields_errs)
  then show ?thesis
    by (auto simp: validate_model_unfold)
qed

lemma title_field:
  "validate_field rt (Field ''title'' T_str False None (Some 1) (Some 200) None None) body = Inr (v, b)
   \<Longrightarrow> \<exists>s. v = PStr s \<and> map_of body ''title'' = Some (PStr s) \<and> 1 \<le> length s \<and> length s \<le> 200"
  by (auto simp: validate_field_def validate_value_def validate_str_def Suc_le_eq
           split: option.splits sum.splits pyval.splits if_splits)

lemma description_field:
  "validate_field rt (Field ''description'' T_str True (Some (PStr [])) None (Some 2000) None None) body = Inr (v, b)
   \<Longrightarrow> v = PNone \<or> (\<exists>s. v = PStr s \<and> length s \<le> 2000)"
  by (auto simp: validate_field_def validate_value_def validate_str_def
           split: option.splits sum.splits pyval.splits if_splits)

lemma rating_field:
  "validate_field rt (Field ''rating'' T_float False None None None (Some 0) (Some 10)) body = Inr (v, b)
   \<Longrightarrow> \<exists>x r. map_of body ''rating'' = Some x \<and> lax_float rt x = Inr r \<and> v = PFloat r \<and> 0 \<le> r \<and> r \<le> 10"
  by (auto simp: validate_field_def validate_value_def validate_float_def
           split: option.splits sum.splits if_splits)

lemma poster_url_field:
  "validate_field rt (Field ''poster_url'' T_str True (Some PNone) None None None None) body = Inr (v, b)
   \<Longrightarrow> v = PNone \<or> (\<exists>s. v = PStr s)"
  by (auto simp: validate_field_def validate_value_def validate_str_def
           split: option.splits sum.splits pyval.splits if_splits)

lemma genres_field:
  "validate_field rt (Field ''genres'' T_list_str True (Some PNone) None None None None) body = Inr (v, b)
   \<Longrightarrow> v = PNone \<or> (\<exists>xs. v = PList xs \<and> list_all is_str xs)"
  by (auto simp: validate_field_def validate_value_def
           split: option.splits sum.splits pyval.splits if_splits)

lemma MovieIn_shape:
  assumes "validate_model rt MovieIn body = Inr p"
  shows "\<exists>s d r u g x.
           model_values p = [(''title'', PStr s), (''description'', d), (''rating'', PFloat r),
                             (''poster_url'', u), (''genres'', g)]
         \<and> model_fields_set p = filter (\<lambda>n. map_of body n \<noteq> None) movie_fields
         \<and> map_of body ''title'' = Some (PStr s) \<and> 1 \<le> length s \<and> length s \<le> 200
         \<and> map_of body ''rating'' = Some x \<and> lax_float rt x = Inr r \<and> 0 \<le> r \<and> r \<le> 10
         \<and> (d = PNone \<or> (\<exists>ds. d = PStr ds \<and> length ds \<le> 2000))
         \<and> (map_of body ''description'' = None \<longrightarrow> d = PStr [])
         \<and> (u = PNone \<or> (\<exists>us. u = PStr us))
         \<and> (g = PNone \<or> (\<exists>xs. g = PList xs \<and> list_all is_str xs))"
proof -
  let ?t = "Field ''title'' T_str False None (Some 1) (Some 200) None None"
  let ?d = "Field ''description'' T_str True (Some (PStr [])) None (Some 2000) None None"
  let ?r = "Field ''rating'' T_float False None None None (Some 0) (Some 10)"
  let ?u = "Field ''poster_url'' T_str True (Some PNone) None None None None"
  let ?g = "Field ''genres'' T_list_str True (Some PNone) None None None None"
  from validate_model_Inr_fields[OF assms] obtain vt vd vr vu vg bt bd br bu bg where
    ft: "validate_field rt ?t body = Inr (vt, bt)" and
    fd: "validate_field rt ?d body = Inr (vd, bd)" and
    fr: "validate_field rt ?r body = Inr (vr, br)" and
    fu: "validate_field rt ?u body = Inr (vu, bu)" and
    fg: "validate_field rt ?g body = Inr (vg, bg)"
    unfolding MovieIn_def by fastforce
  have vals: "model_values p = [(''title'', vt), (''description'', vd), (''rating'', vr),
                             (''poster_url'', vu), (''genres'', vg)]"
    using assms ft fd fr fu fg
    by (auto simp: validate_model_unfold validate_fields_vals MovieIn_def split: if_splits)
  have fs: "model_fields_set p = filter (\<lambda>n. map_of body n \<noteq> None) movie_fields"
    using validate_model_fields_set[OF assms] by (simp add: MovieIn_def movie_fields_def)
  have dd: "map_of body ''description'' = None \<longrightarrow> vd = PStr []"
    using fd by (auto simp: validate_field_def)
  from title_field[OF ft] obtain s where
    s: "vt = PStr s" "map_of body ''title'' = Some (PStr s)" "1 \<le> length s" "length s \<le> 200"
    by blast
  from rating_field[OF fr] obtain x r where
    r: "map_of body ''rating'' = Some x" "lax_float rt x = Inr r" "vr = PFloat r" "0 \<le> r" "r \<le> 10"
    by blast
  show ?thesis
    by (rule exI[of _ s], rule exI[of _ vd], rule exI[of _ r], rule exI[of _ vu],
        rule exI[of _ vg], rule exI[of _ x])
       (use s r vals fs dd description_field[OF fd] poster_url_field[OF fu] genres_field[OF fg]
        in simp)
qed

lemma MovieIn_accepts:
  assumes t: "map_of data ''title'' = Some (PStr s)" "1 \<le> length s" "length s \<le> 200"
    and r: "map_of data ''rating'' = Some x" "lax_float rt x = Inr r" "0 \<le> r" "r \<le> 10"
    and d: "map_of data ''description'' = None \<or> map_of data ''description'' = Some PNone \<or>
            (\<exists>ds. map_of data ''description'' = Some (PStr ds) \<and> length ds \<le> 2000)"
    and u: "map_of data ''poster_url'' = None \<or> map_of data ''poster_url'' = Some PNone \<or>
            (\<exists>us. map_of data ''poster_url'' = Some (PStr us))"
    and g: "map_of data ''genres'' = None \<or> map_of data ''genres'' = Some PNone \<or>
            (\<exists>xs. map_of data ''genres'' = Some (PList xs) \<and> list_all is_str xs)"
  shows "\<exists>vd vu vg fset. validate_model rt MovieIn data =
           Inr \<lparr>model_values = [(''title'', PStr s), (''description'', vd), (''rating'', PFloat r),
                  (''poster_url'', vu), (''genres'', vg)], model_fields_set = fset\<rparr>
         \<and> vd = (case map_of data ''description'' of None \<Rightarrow> PStr [] | Some v \<Rightarrow> v)
         \<and> vu = (case map_of data ''poster_url'' of None \<Rightarrow> PNone | Some v \<Rightarrow> v)
         \<and> vg = (case map_of data ''genres'' of None \<Rightarrow> PNone | Some v \<Rightarrow> v)"
proof -
  have ft: "validate_field rt (Field ''title'' T_str False None (Some 1) (Some 200) None None) data
              = Inr (PStr s, True)"
    using t by (auto simp: validate_field_def validate_value_def validate_str_def)
  have fr: "validate_field rt (Field ''rating'' T_float False None None None (Some 0) (Some 10)) data
              = Inr (PFloat r, True)"
    using r by (cases x) (auto simp: validate_field_def validate_value_def validate_float_def)
  have fd: "\<exists>b. validate_field rt
              (Field ''description'' T_str True (Some (PStr [])) None (Some 2000) None None) data
              = Inr (case map_of data ''description'' of None \<Rightarrow> PStr [] | Some v \<Rightarrow> v, b)"
    using d by (auto simp: validate_field_def validate_value_def validate_str_def)
  have fu: "\<exists>b. validate_field rt (Field ''poster_url'' T_str True (Some PNone) None None None None) data
              = Inr (case map_of data ''poster_url'' of None \<Rightarrow> PNone | Some v \<Rightarrow> v, b)"
    using u by (auto simp: validate_field_def validate_value_def validate_str_def)
  have fg: "\<exists>b. validate_field rt (Field ''genres'' T_list_str True (Some PNone) None None None None) data
              = Inr (case map_of data ''genres'' of None \<Rightarrow> PNone | Some v \<Rightarrow> v, b)"
    using g by (auto simp: validate_field_def validate_value_def)
  from fd fu fg obtain bd bu bg where
    "validate_field rt (Field ''description'' T_str True (Some (PStr [])) None (Some 2000) None None) data
       = Inr (case map_of data ''description'' of None \<Rightarrow> PStr [] | Some v \<Rightarrow> v, bd)"
    "validate_field rt (Field ''poster_url'' T_str True (Some PNone) None None None None) data
       = Inr (case map_of data ''poster_url'' of None \<Rightarrow> PNone | Some v \<Rightarrow> v, bu)"
    "validate_field rt (Field ''genres'' T_list_str True (Some PNone) None None None None) data
       = Inr (case map_of data ''genres'' of None \<Rightarrow> PNone | Some v \<Rightarrow> v, bg)"
    by blast
  with ft fr show ?thesis
    by (simp add: validate_model_def MovieIn_def)
qed

section \<open>Creation payloads and the rating range\<close>

text \<open>
  Claim C7 says that every creation payload whose rating is greater than 10 or less than
  0 fails with a range error on the field \<open>rating\<close>. An integer rating beyond the range
  of a double is greater than 10 and is rejected, but as no valid number at all: the
  error on \<open>rating\<close> is the type error, and there is no range error.
\<close>

theorem C7_rating_beyond_double_range:
  "(10::int) < 10 ^ 400
   \<and> validate_model rt0 MovieIn [(''title'', PStr ''Inception''), (''rating'', PInt (10 ^ 400))] =
       Inl [(''rating'', float_type)]"
proof -
  have "(2::int) ^ 1024 \<le> \<bar>10 ^ 400\<bar>"
    by simp
  then have "int_as_double (10 ^ 400) = None"
    by (rule int_as_double_overflow)
  then have "validate_model rt0 MovieIn
      [(''title'', PStr ''Inception''), (''rating'', PInt (10 ^ 400))] = Inl [(''rating'', float_type)]"
    by (simp add: validate_model_def MovieIn_def validate_field_def validate_value_def
          validate_str_def)
  moreover have "(10::int) < 10 ^ 400"
    by simp
  ultimately show ?thesis
    by (intro conjI)
qed

text \<open>
  Claim C7, amended. A creation payload whose rating is a float below 0 or above 10, or
  an integer or numeric string that converts to such a float, fails the validation of
  \<open>MovieIn\<close> with a range error on the field \<open>rating\<close> (\<open>ge\<close> violated below 0, \<open>le\<close>
  violated above 10), whatever its other fields. An integer rating below 0 or above 10
  always fails: with that range error when it converts to a float, and with the type
  error on \<open>rating\<close> when it is beyond the range of a double. A payload with a title of
  1 to 200 characters, a rating that converts to a float from 0 to 10 and valid other
  fields (description absent, null or a string of at most 2000 characters; poster_url
  absent, null or a string; genres absent, null or a list of strings) passes, with the
  title and the rating unchanged in the validated model.
\<close>

theorem C7_validate_create_rating_range:
  "(map_of body ''rating'' = Some x \<and> lax_float rt x = Inr r \<and> (r < 0 \<or> 10 < r) \<longrightarrow>
      (\<exists>errs. validate_model rt MovieIn body = Inl errs \<and>
         (''rating'', if r < 0 then greater_than_equal else less_than_equal) \<in> set errs)) \<and>
   (map_of body ''rating'' = Some (PInt i) \<and> (i < 0 \<or> 10 < i) \<longrightarrow>
      (\<exists>errs. validate_model rt MovieIn body = Inl errs \<and>
         (''rating'',
          case int_as_double i of
            None \<Rightarrow> float_type
          | Some c \<Rightarrow> if i < 0 then greater_than_equal else less_than_equal) \<in> set errs)) \<and>
   (map_of body ''title'' = Some (PStr s) \<and> 1 \<le> length s \<and> length s \<le> 200 \<and>
    map_of body ''rating'' = Some x \<and> lax_float rt x = Inr r \<and> 0 \<le> r \<and> r \<le> 10 \<and>
    (map_of body ''description'' = None \<or> map_of body ''description'' = Some PNone \<or>
       (\<exists>ds. map_of body ''description'' = Some (PStr ds) \<and> length ds \<le> 2000)) \<and>
    (map_of body ''poster_url'' = None \<or> map_of body ''poster_url'' = Some PNone \<or>
       (\<exists>us. map_of body ''poster_url'' = Some (PStr us))) \<and>
    (map_of body ''genres'' = None \<or> map_of body ''genres'' = Some PNone \<or>
       (\<exists>xs. map_of body ''genres'' = Some (PList xs) \<and> list_all is_str xs)) \<longrightarrow>
      (\<exists>payload. validate_model rt MovieIn body = Inr payload \<and>
         map_of (model_values payload) ''title'' = Some (PStr s) \<and>
         map_of (model_values payload) ''rating'' = Some (PFloat r)))"
proof (intro conjI impI)
  let ?f = "Field ''rating'' T_float False None None None (Some 0) (Some 10)"
  have mem: "?f \<in> set MovieIn"
    by (simp add: MovieIn_def)
  {
    assume a: "map_of body ''rating'' = Some x \<and> lax_float rt x = Inr r \<and> (r < 0 \<or> 10 < r)"
    have "validate_field rt ?f body =
            Inl (if r < 0 then greater_than_equal else less_than_equal)"
      using a by (auto simp: validate_field_def validate_value_def validate_float_def)
    then show "\<exists>errs. validate_model rt MovieIn body = Inl errs \<and>
           (''rating'', if r < 0 then greater_than_equal else less_than_equal) \<in> set errs"
      using validate_model_failure[OF mem, of rt body] by simp
  }
  {
    assume a: "map_of body ''rating'' = Some (PInt i) \<and> (i < 0 \<or> 10 < i)"
    let ?e = "case int_as_double i of
                None \<Rightarrow> float_type
              | Some c \<Rightarrow> if i < 0 then greater_than_equal else less_than_equal"
    have "validate_field rt ?f body = Inl ?e"
    proof (cases "int_as_double i")
      case None
      then show ?thesis
        using a by (simp add: validate_field_def validate_value_def)
    next
      case (Some c)
      from int_as_double_sign[OF Some] a have "(i < 0 \<and> c < 0) \<or> (\<not> i < 0 \<and> 10 < c)"
        by auto
      then show ?thesis
        using a Some by (auto simp: validate_field_def validate_value_def validate_float_def)
    qed
    then show "\<exists>errs. validate_model rt MovieIn body = Inl errs \<and> (''rating'', ?e) \<in> set errs"
      using validate_model_failure[OF mem, of rt body] by simp
  }
  {
    assume b: "map_of body ''title'' = Some (PStr s) \<and> 1 \<le> length s \<and> length s \<le> 200 \<and>
      map_of body ''rating'' = Some x \<and> lax_float rt x = Inr r \<and> 0 \<le> r \<and> r \<le> 10 \<and>
      (map_of body ''description'' = None \<or> map_of body ''description'' = Some PNone \<or>
         (\<exists>ds. map_of body ''description'' = Some (PStr ds) \<and> length ds \<le> 2000)) \<and>
      (map_of body ''poster_url'' = None \<or> map_of body ''poster_url'' = Some PNone \<or>
         (\<exists>us. map_of body ''poster_url'' = Some (PStr us))) \<and>
      (map_of body ''genres'' = None \<or> map_of body ''genres'' = Some PNone \<or>
         (\<exists>xs. map_of body ''genres'' = Some (PList xs) \<and> list_all is_str xs))"
    then obtain vd vu vg fset where
      "validate_model rt MovieIn body =
             Inr \<lparr>model_values = [(''title'', PStr s), (''description'', vd), (''rating'', PFloat r),
                    (''poster_url'', vu), (''genres'', vg)], model_fields_set = fset\<rparr>"
      using MovieIn_accepts[of body s x rt r] by blast
    then show "\<exists>payload. validate_model rt MovieIn body = Inr payload \<and>
           map_of (model_values payload) ''title'' = Some (PStr s) \<and>
           map_of (model_values payload) ''rating'' = Some (PFloat r)"
      by simp
  }
qed

theorem C7_validate_create_rating_range_witness:
  "(\<exists>errs. validate_model rt0 MovieIn [(''title'', PStr ''Inception''), (''rating'', PFloat 10.5)]
        = Inl errs \<and> (''rating'', less_than_equal) \<in> set errs)
   \<and> (\<exists>errs. validate_model rt0 MovieIn [(''rating'', PInt (- 1))]
        = Inl errs \<and> (''rating'', greater_than_equal) \<in> set errs)
   \<and> (\<exists>errs. validate_model rt0 MovieIn [(''rating'', PInt 11)]
        = Inl errs \<and> (''rating'', less_than_equal) \<in> set errs)
   \<and> (\<exists>payload. validate_model rt0 MovieIn [(''title'', PStr ''Inception''), (''rating'', PInt 9)]
        = Inr payload \<and>
         map_of (model_values payload) ''title'' = Some (PStr ''Inception'') \<and>
         map_of (model_values payload) ''rating'' = Some (PFloat 9))"
proof -
  have 1: "\<exists>errs. validate_model rt0 MovieIn [(''title'', PStr ''Inception''), (''rating'', PFloat 10.5)]
        = Inl errs \<and> (''rating'', less_than_equal) \<in> set errs"
    using C7_validate_create_rating_range[where rt=rt0 and r="10.5" and x="PFloat 10.5"
        and body="[(''title'', PStr ''Inception''), (''rating'', PFloat 10.5)]"]
    by simp
  have 2: "\<exists>errs. validate_model rt0 MovieIn [(''rating'', PInt (- 1))]
        = Inl errs \<and> (''rating'', greater_than_equal) \<in> set errs"
    using C7_validate_create_rating_range[where rt=rt0 and r="- 1" and x="PInt (- 1)"
        and body="[(''rating'', PInt (- 1))]"]
    by (simp add: int_as_double_small)
  have 3: "\<exists>errs. validate_model rt0 MovieIn [(''rating'', PInt 11)]
        = Inl errs \<and> (''rating'', less_than_equal) \<in> set errs"
    using C7_validate_create_rating_range[where rt=rt0 and i=11
        and body="[(''rating'', PInt 11)]"]
    by (simp add: int_as_double_small)
  have 4: "\<exists>payload. validate_model rt0 MovieIn [(''title'', PStr ''Inception''), (''rating'', PInt 9)]
        = Inr payload \<and>
         map_of (model_values payload) ''title'' = Some (PStr ''Inception'') \<and>
         map_of (model_values payload) ''rating'' = Some (PFloat 9)"
    using C7_validate_create_rating_range[where rt=rt0 and r="9" and x="PInt 9"
        and s="''Inception''" and body="[(''title'', PStr ''Inception''), (''rating'', PInt 9)]"]
    by (simp add: int_as_double_small)
  from 1 2 3 4 show ?thesis by blast
qed

section \<open>The second validation pass of creation\<close>

lemma validated_MovieIn_passes:
  assumes "validate_model rt MovieIn body = Inr payload" and "cls = MovieIn"
  shows "validate_model rt cls (model_dump payload) =
           Inr \<lparr>model_values = model_values payload, model_fields_set = movie_fields\<rparr>"
proof -
  from MovieIn_shape[OF assms(1)] obtain s d r u g where
    vals: "model_values payload = [(''title'', PStr s), (''description'', d), (''rating'', PFloat r),
                             (''poster_url'', u), (''genres'', g)]"
    and s: "1 \<le> length s" "length s \<le> 200" and r: "0 \<le> r" "r \<le> 10"
    and d: "d = PNone \<or> (\<exists>ds. d = PStr ds \<and> length ds \<le> 2000)"
    and u: "u = PNone \<or> (\<exists>us. u = PStr us)"
    and g: "g = PNone \<or> (\<exists>xs. g = PList xs \<and> list_all is_str xs)"
    by blast
  let ?vals = "[(''title'', PStr s), (''description'', d), (''rating'', PFloat r),
                             (''poster_url'', u), (''genres'', g)]"
  have "\<exists>vd vu vg fset. validate_model rt MovieIn ?vals =
           Inr \<lparr>model_values = [(''title'', PStr s), (''description'', vd), (''rating'', PFloat r),
                  (''poster_url'', vu), (''genres'', vg)], model_fields_set = fset\<rparr>
         \<and> vd = (case map_of ?vals ''description'' of None \<Rightarrow> PStr [] | Some v \<Rightarrow> v)
         \<and> vu = (case map_of ?vals ''poster_url'' of None \<Rightarrow> PNone | Some v \<Rightarrow> v)
         \<and> vg = (case map_of ?vals ''genres'' of None \<Rightarrow> PNone | Some v \<Rightarrow> v)"
    by (rule MovieIn_accepts[where x="PFloat r"]) (use s r d u g in auto)
  then obtain fset where
    v: "validate_model rt MovieIn ?vals = Inr \<lparr>model_values = ?vals, model_fields_set = fset\<rparr>"
    by auto
  from validate_model_fields_set[OF v] have "fset = movie_fields"
    by (simp add: MovieIn_def movie_fields_def)
  with v vals assms(2) show ?thesis
    by (simp add: model_dump_def)
qed

lemma MovieSchema_is_MovieIn: "MovieSchema = MovieIn"
  by (simp add: MovieSchema_def MovieIn_def)



section \<open>Creation round trip\<close>

lemma lower_hex_fixed: "c \<in> set ''0123456789abcdef'' \<Longrightarrow> lower_hex c = c \<and> is_hex c"
  by (auto simp: lower_hex_def is_hex_def)

lemma ObjectId_str_roundtrip:
  assumes "ObjectId_wf oid"
  shows "ObjectId_of_str (str_of_ObjectId oid) = Inr oid"
proof (cases oid)
  case (Oid h)
  with assms have len: "length h = 24" and low: "\<forall>c\<in>set h. c \<in> set ''0123456789abcdef''"
    by (simp_all add: ObjectId_wf_def list_all_iff)
  from low have "\<forall>c\<in>set h. is_hex c" and "map lower_hex h = h"
    using lower_hex_fixed by (blast, simp add: map_idI)
  with len Oid show ?thesis
    by (simp add: ObjectId_of_str_def list_all_iff)
qed

lemma find_after_insert:
  assumes "map_of (movie db) new_id = None"
  shows "create_document db data new_id =
           (Inr (str_of_ObjectId new_id),
            called (InsertOne new_id data) (db\<lparr>movie := movie db @ [(new_id, data)]\<rparr>))"
    and "map_of (movie db @ [(new_id, data)]) new_id = Some data"
  using assms by (simp_all add: create_document_def insert_one_def map_add_def)

lemma movie_out_of_validated:
  assumes s: "1 \<le> length s" "length s \<le> 200" and r: "0 \<le> r" "r \<le> 10"
    and d: "d = PNone \<or> (\<exists>ds. d = PStr ds \<and> length ds \<le> 2000)"
    and u: "u = PNone \<or> (\<exists>us. u = PStr us)"
    and g: "g = PNone \<or> (\<exists>xs. g = PList xs \<and> list_all is_str xs)"
  shows "movie_out rt (oid, [(''title'', PStr s), (''description'', d), (''rating'', PFloat r),
                             (''poster_url'', u), (''genres'', g)]) =
           Inr \<lparr>model_values = [(''title'', PStr s), (''description'', d), (''rating'', PFloat r),
                    (''poster_url'', u), (''genres'', g), (''id'', PStr (str_of_ObjectId oid))],
                 model_fields_set = [''title'', ''description'', ''rating'', ''poster_url'',
                    ''genres'', ''id'']\<rparr>"
proof -
  let ?ser = "[(''id'', PStr (str_of_ObjectId oid)), (''title'', PStr s), (''description'', d),
     (''rating'', PFloat r), (''poster_url'', u), (''genres'', g), (''created_at'', PNone),
     (''updated_at'', PNone)]"
  have ser: "serialize_movie rt (oid, [(''title'', PStr s), (''description'', d), (''rating'', PFloat r),
                             (''poster_url'', u), (''genres'', g)]) = Inr ?ser"
    by (simp add: dict_get_def)
  have ft: "validate_field rt (Field ''title'' T_str False None (Some 1) (Some 200) None None) ?ser
              = Inr (PStr s, True)"
    using s by (auto simp: validate_field_def validate_value_def validate_str_def)
  have fd: "validate_field rt
              (Field ''description'' T_str True (Some (PStr [])) None (Some 2000) None None) ?ser
              = Inr (d, True)"
    using d by (auto simp: validate_field_def validate_value_def validate_str_def)
  have fr: "validate_field rt (Field ''rating'' T_float False None None None (Some 0) (Some 10)) ?ser
              = Inr (PFloat r, True)"
    using r by (auto simp: validate_field_def validate_value_def validate_float_def)
  have fu: "validate_field rt (Field ''poster_url'' T_str True (Some PNone) None None None None) ?ser
              = Inr (u, True)"
    using u by (auto simp: validate_field_def validate_value_def validate_str_def)
  have fg: "validate_field rt (Field ''genres'' T_list_str True (Some PNone) None None None None) ?ser
              = Inr (g, True)"
    using g by (auto simp: validate_field_def validate_value_def)
  have fi: "validate_field rt (Field ''id'' T_str False None None None None None) ?ser
              = Inr (PStr (str_of_ObjectId oid), True)"
    by (simp add: validate_field_def validate_value_def validate_str_def)
  have "validate_model rt MovieOut ?ser =
           Inr \<lparr>model_values = [(''title'', PStr s), (''description'', d), (''rating'', PFloat r),
                    (''poster_url'', u), (''genres'', g), (''id'', PStr (str_of_ObjectId oid))],
                 model_fields_set = [''title'', ''description'', ''rating'', ''poster_url'',
                    ''genres'', ''id'']\<rparr>"
    using ft fd fr fu fg fi by (simp add: validate_model_def MovieOut_def MovieIn_def)
  with ser show ?thesis
    by (simp add: movie_out_def)
qed

text \<open>
  Claim C4. For a creation payload that \<open>MovieIn\<close> accepts, and a fresh well-formed
  identifier from the storage engine, \<open>add_movie\<close> succeeds: the document stored under
  the identifier is the dump of the validated payload, the output mapping of that
  document and the returned \<open>MovieOut\<close> carry title, description, rating, poster_url and
  genres as the validated payload has them, and the description is the empty string
  when the request body had none.
\<close>

theorem C4_create_round_trip:
  assumes "validate_model rt MovieIn body = Inr payload"
    and "ObjectId_wf new_id"
    and "map_of (movie db) new_id = None"
  shows "\<exists>out db' ser.
           add_movie rt new_id db payload = (Inr out, db') \<and>
           map_of (movie db') new_id = Some (model_dump payload) \<and>
           serialize_movie rt (new_id, model_dump payload) = Inr ser \<and>
           (\<forall>k\<in>set movie_fields. map_of ser k = map_of (model_values payload) k) \<and>
           (\<forall>k\<in>set movie_fields. map_of (model_values out) k = map_of (model_values payload) k) \<and>
           map_of (model_values out) ''id'' = Some (PStr (str_of_ObjectId new_id)) \<and>
           (map_of body ''description'' = None \<longrightarrow>
              map_of (model_values out) ''description'' = Some (PStr []))"
proof -
  from MovieIn_shape[OF assms(1)] obtain s d r u g where
    vals: "model_values payload = [(''title'', PStr s), (''description'', d), (''rating'', PFloat r),
                             (''poster_url'', u), (''genres'', g)]"
    and s: "1 \<le> length s" "length s \<le> 200" and r: "0 \<le> r" "r \<le> 10"
    and d: "d = PNone \<or> (\<exists>ds. d = PStr ds \<and> length ds \<le> 2000)"
    and dd: "map_of body ''description'' = None \<longrightarrow> d = PStr []"
    and u: "u = PNone \<or> (\<exists>us. u = PStr us)"
    and g: "g = PNone \<or> (\<exists>xs. g = PList xs \<and> list_all is_str xs)"
    by (elim exE conjE) (rule that, assumption+)
  let ?vals = "[(''title'', PStr s), (''description'', d), (''rating'', PFloat r),
                             (''poster_url'', u), (''genres'', g)]"
  let ?out = "\<lparr>model_values = ?vals @ [(''id'', PStr (str_of_ObjectId new_id))],
                model_fields_set = [''title'', ''description'', ''rating'', ''poster_url'',
                    ''genres'', ''id'']\<rparr>"
  let ?db1 = "called (InsertOne new_id ?vals) (db\<lparr>movie := movie db @ [(new_id, ?vals)]\<rparr>)"
  let ?db' = "called (FindOne new_id) ?db1"
  let ?ser = "[(''id'', PStr (str_of_ObjectId new_id)), (''title'', PStr s), (''description'', d),
     (''rating'', PFloat r), (''poster_url'', u), (''genres'', g), (''created_at'', PNone),
     (''updated_at'', PNone)]"
  have dump: "model_dump payload = ?vals"
    using vals by (simp add: model_dump_def)
  have pass2: "validate_model rt MovieSchema ?vals =
           Inr \<lparr>model_values = model_values payload, model_fields_set = movie_fields\<rparr>"
    using validated_MovieIn_passes[OF assms(1) MovieSchema_is_MovieIn] dump by simp
  have ins: "create_document db ?vals new_id = (Inr (str_of_ObjectId new_id), ?db1)"
    by (rule find_after_insert(1)[OF assms(3)])
  have found: "find_one ?db1 new_id = (Some (new_id, ?vals), ?db')"
    using find_after_insert(2)[OF assms(3), of ?vals] by (simp add: find_one_def called_def)
  have out: "movie_out rt (new_id, ?vals) = Inr ?out"
    using movie_out_of_validated[OF s r d u g, of rt new_id] by simp
  have add: "add_movie rt new_id db payload = (Inr ?out, ?db')"
    by (simp add: add_movie_def dump pass2 ins ObjectId_str_roundtrip[OF assms(2)] found out)
  have stored: "map_of (movie ?db') new_id = Some (model_dump payload)"
    using find_after_insert(2)[OF assms(3), of ?vals] dump by simp
  have ser: "serialize_movie rt (new_id, model_dump payload) = Inr ?ser"
    by (simp add: dump dict_get_def)
  have k1: "\<forall>k\<in>set movie_fields. map_of ?ser k = map_of (model_values payload) k"
    by (simp add: movie_fields_def vals)
  have k2: "\<forall>k\<in>set movie_fields. map_of (model_values ?out) k = map_of (model_values payload) k"
    by (simp add: movie_fields_def vals)
  have k3: "map_of (model_values ?out) ''id'' = Some (PStr (str_of_ObjectId new_id))"
    by simp
  have k4: "map_of body ''description'' = None \<longrightarrow>
              map_of (model_values ?out) ''description'' = Some (PStr [])"
    using dd by simp
  show ?thesis
    by (rule exI[of _ ?out], rule exI[of _ ?db'], rule exI[of _ ?ser], intro conjI)
       (rule add stored ser k1 k2 k3 k4)+
qed

theorem C4_create_round_trip_witness:
  "validate_model rt0 MovieIn [(''title'', PStr ''Inception''), (''rating'', PInt 9)] =
     Inr \<lparr>model_values = inception, model_fields_set = [''title'', ''rating'']\<rparr>
   \<and> ObjectId_wf (Oid ''0123456789abcdef01234568'')
   \<and> map_of (movie db0) (Oid ''0123456789abcdef01234568'') = None
   \<and> (\<exists>out db'. add_movie rt0 (Oid ''0123456789abcdef01234568'') db0
          \<lparr>model_values = inception, model_fields_set = [''title'', ''rating'']\<rparr> = (Inr out, db')
        \<and> map_of (movie db') (Oid ''0123456789abcdef01234568'') = Some inception
        \<and> map_of (model_values out) ''title'' = Some (PStr ''Inception'')
        \<and> map_of (model_values out) ''description'' = Some (PStr [])
        \<and> map_of (model_values out) ''rating'' = Some (PFloat 9)
        \<and> map_of (model_values out) ''poster_url'' = Some PNone
        \<and> map_of (model_values out) ''genres'' = Some PNone
        \<and> map_of (model_values out) ''id'' = Some (PStr ''0123456789abcdef01234568''))"
proof -
  let ?p = "\<lparr>model_values = inception, model_fields_set = [''title'', ''rating'']\<rparr>"
  let ?id = "Oid ''0123456789abcdef01234568''"
  have h1: "validate_model rt0 MovieIn [(''title'', PStr ''Inception''), (''rating'', PInt 9)] = Inr ?p"
    by (simp add: validate_model_def MovieIn_def inception_def validate_field_def
          validate_value_def validate_str_def validate_float_def int_as_double_small)
  have h2: "ObjectId_wf ?id"
    by (simp add: ObjectId_wf_def)
  have h3: "map_of (movie db0) ?id = None"
    by (simp add: db0_def)
  from C4_create_round_trip[OF h1 h2 h3] obtain out db' where
    add: "add_movie rt0 ?id db0 ?p = (Inr out, db')"
    and st: "map_of (movie db') ?id = Some (model_dump ?p)"
    and same: "\<forall>k\<in>set movie_fields. map_of (model_values out) k = map_of (model_values ?p) k"
    and ident: "map_of (model_values out) ''id'' = Some (PStr (str_of_ObjectId ?id))"
    by (elim exE conjE) (rule that, assumption+)
  have f: "''title'' \<in> set movie_fields" "''description'' \<in> set movie_fields"
    "''rating'' \<in> set movie_fields" "''poster_url'' \<in> set movie_fields"
    "''genres'' \<in> set movie_fields"
    by (simp_all add: movie_fields_def)
  have k1: "map_of (model_values out) ''title'' = Some (PStr ''Inception'')"
    using bspec[OF same f(1)] by (simp add: inception_def)
  have k2: "map_of (model_values out) ''description'' = Some (PStr [])"
    using bspec[OF same f(2)] by (simp add: inception_def)
  have k3: "map_of (model_values out) ''rating'' = Some (PFloat 9)"
    using bspec[OF same f(3)] by (simp add: inception_def)
  have k4: "map_of (model_values out) ''poster_url'' = Some PNone"
    using bspec[OF same f(4)] by (simp add: inception_def)
  have k5: "map_of (model_values out) ''genres'' = Some PNone"
    using bspec[OF same f(5)] by (simp add: inception_def)
  have k6: "map_of (model_values out) ''id'' = Some (PStr ''0123456789abcdef01234568'')"
    using ident by simp
  have st': "map_of (movie db') ?id = Some inception"
    using st by (simp add: model_dump_def)
  have "\<exists>out db'. add_movie rt0 ?id db0 ?p = (Inr out, db')
        \<and> map_of (movie db') ?id = Some inception
        \<and> map_of (model_values out) ''title'' = Some (PStr ''Inception'')
        \<and> map_of (model_values out) ''description'' = Some (PStr [])
        \<and> map_of (model_values out) ''rating'' = Some (PFloat 9)
        \<and> map_of (model_values out) ''poster_url'' = Some PNone
        \<and> map_of (model_values out) ''genres'' = Some PNone
        \<and> map_of (model_values out) ''id'' = Some (PStr ''0123456789abcdef01234568'')"
    by (rule exI[of _ out], rule exI[of _ db'], intro conjI) (rule add st' k1 k2 k3 k4 k5 k6)+
  with h1 h2 h3 show ?thesis
    by (intro conjI)
qed

end
